theory Spec2Isabelle
  imports Complex_Main
begin

section \<open>JavaScript strings\<close>

text \<open>
  A JavaScript string is modelled as a \<open>string\<close> (a list of \<open>char\<close>); the
  registry, the selectors and the CSS text of the widget are ASCII. A string is truthy
  exactly when it is not empty.

  \<open>String.prototype.trim\<close> removes the white space and the line terminators at both
  ends. Of the characters JavaScript counts as such, these fit into a \<open>char\<close>: TAB, LF,
  VT, FF, CR, SPACE and NBSP.
\<close>

definition is_ws :: "char \<Rightarrow> bool" where
  "is_ws c = (c = CHR 0x09 \<or> c = CHR 0x0A \<or> c = CHR 0x0B \<or> c = CHR 0x0C
            \<or> c = CHR 0x0D \<or> c = CHR 0x20 \<or> c = CHR 0xA0)"

definition trim :: "string \<Rightarrow> string" where
  "trim s = rev (dropWhile is_ws (rev (dropWhile is_ws s)))"

section \<open>The CSS compiler (utils/cssGenerator)\<close>

text \<open>
  \<open>IToolConfig\<close>: every field is optional in the source (\<open>injectToolCSS\<close> gives
  \<open>id\<close> and \<open>enable\<close> defaults, \<open>generateCSS\<close> tests \<open>styles\<close>,
  \<open>generateCSSFromConfig\<close> tests \<open>selector\<close>, \<open>childrenSelector\<close> and \<open>css\<close>),
  so every field is an option; \<open>None\<close> is \<open>undefined\<close>. The \<open>styles\<close> object is the
  list of its properties in the order in which \<open>for (key in styles)\<close> enumerates them.
\<close>

record tool_config =
  cid :: "string option"
  selector :: "string option"
  childrenSelector :: "string list option"
  styles :: "(string \<times> string) list option"
  css :: "string option"
  enable :: "bool option"

definition browserPrefixes :: "string list" where
  "browserPrefixes = [''-o-'', ''-ms-'', ''-moz-'', ''-webkit-'', '''']"

definition propertiesNeedPrefix :: "string list" where
  "propertiesNeedPrefix = [''filter'']"

text \<open>
  \<open>generateCSS\<close>: the two nested loops append to the accumulator \<open>css\<close>; the
  result is trimmed. With \<open>styles\<close> undefined the loops do not run.
\<close>

definition generateCSS :: "(string \<times> string) list option \<Rightarrow> string" where
  "generateCSS st =
     trim (case st of
             None \<Rightarrow> ''''
           | Some kvs \<Rightarrow>
               fold (\<lambda>(key, val) acc.
                       fold (\<lambda>prefix acc'. acc' @ prefix @ key @ '': '' @ val @ '' !important; '')
                            (if key \<in> set propertiesNeedPrefix then browserPrefixes else [''''])
                            acc)
                    kvs '''')"

subsection \<open>The declaration renderer as the specification words it\<close>

text \<open>
  One declaration per prefix for a property that needs prefixes, one unprefixed declaration
  otherwise, each ending in \<open>!important;\<close>.
\<close>

definition declarations :: "string \<times> string \<Rightarrow> string list" where
  "declarations kv =
     map (\<lambda>prefix. prefix @ fst kv @ '': '' @ snd kv @ '' !important;'')
         (if fst kv \<in> set propertiesNeedPrefix then browserPrefixes else [''''])"

text \<open>The declarations separated by a single space.\<close>

fun join_space :: "string list \<Rightarrow> string" where
  "join_space [] = ''''"
| "join_space [d] = d"
| "join_space (d # ds) = d @ '' '' @ join_space ds"

definition renderDeclarations :: "(string \<times> string) list \<Rightarrow> string" where
  "renderDeclarations kvs = trim (join_space (concat (map declarations kvs)))"

text \<open>
  \<open>wrapCSSToSelector\<close>: one rule per child selector, appended to \<open>output\<close>; the
  parameter default \<open>childrenSelector = [""]\<close> applies to an undefined argument. The
  result is trimmed.
\<close>

definition wrapCSSToSelector :: "string \<Rightarrow> string list option \<Rightarrow> string \<Rightarrow> string" where
  "wrapCSSToSelector sel children cssText =
     trim (fold (\<lambda>childSelector output.
                   output @ (if childSelector \<noteq> '''' then sel @ '' '' @ childSelector else sel)
                          @ '' { '' @ cssText @ '' } '')
                (case children of None \<Rightarrow> [''''] | Some cs \<Rightarrow> cs)
                '''')"

text \<open>
  \<open>generateCSSFromConfig\<close>. \<open>generatedCSS && config.selector\<close> and \<open>config.css\<close>
  test strings for truthiness; \<open>config.childrenSelector || [""]\<close> replaces an undefined
  list only (an array, also the empty one, is truthy).
\<close>

definition truthy :: "string option \<Rightarrow> bool" where
  "truthy s = (case s of None \<Rightarrow> False | Some t \<Rightarrow> t \<noteq> '''')"

definition generateCSSFromConfig :: "tool_config option \<Rightarrow> string" where
  "generateCSSFromConfig config =
     trim (case config of
             None \<Rightarrow> ''''
           | Some c \<Rightarrow>
               (let generatedCSS = generateCSS (styles c);
                    output =
                      (if generatedCSS \<noteq> '''' \<and> truthy (selector c)
                       then wrapCSSToSelector (case selector c of None \<Rightarrow> '''' | Some t \<Rightarrow> t)
                              (Some (case childrenSelector c of None \<Rightarrow> [''''] | Some cs \<Rightarrow> cs))
                              generatedCSS
                       else if generatedCSS \<noteq> '''' then generatedCSS
                       else '''')
                in if truthy (css c)
                   then output @ '' '' @ (case css c of None \<Rightarrow> '''' | Some t \<Rightarrow> t)
                   else output))"

subsection \<open>Scoping and compiling as the specification words them\<close>

definition fullSelector :: "string \<Rightarrow> string \<Rightarrow> string" where
  "fullSelector sel childSelector =
     (if childSelector \<noteq> '''' then sel @ '' '' @ childSelector else sel)"

text \<open>One rule \<open>"fullSelector { block } "\<close> per entry, concatenated in list order.\<close>

definition scopeDeclarations :: "string \<Rightarrow> string list \<Rightarrow> string \<Rightarrow> string" where
  "scopeDeclarations sel children block =
     concat (map (\<lambda>childSelector. fullSelector sel childSelector @ '' { '' @ block @ '' } '')
                 children)"

definition has_styles :: "tool_config \<Rightarrow> bool" where
  "has_styles c = (case styles c of None \<Rightarrow> False | Some kvs \<Rightarrow> kvs \<noteq> [])"

definition children_or_default :: "tool_config \<Rightarrow> string list" where
  "children_or_default c = (case childrenSelector c of None \<Rightarrow> [''''] | Some cs \<Rightarrow> cs)"

definition css_suffix :: "tool_config \<Rightarrow> string" where
  "css_suffix c = (case css c of None \<Rightarrow> '''' | Some t \<Rightarrow> '' '' @ t)"

text \<open>
  The compile step read word for word: the rules (or the bare block), then the
  space-prefixed \<open>css\<close>, and one trim of the whole.
\<close>

definition compile_one_trim :: "tool_config \<Rightarrow> string" where
  "compile_one_trim c =
     trim ((if has_styles c
            then (case selector c of
                    None \<Rightarrow> renderDeclarations (case styles c of None \<Rightarrow> [] | Some kvs \<Rightarrow> kvs)
                  | Some sel \<Rightarrow>
                      if sel = ''''
                      then renderDeclarations (case styles c of None \<Rightarrow> [] | Some kvs \<Rightarrow> kvs)
                      else scopeDeclarations sel (children_or_default c)
                             (renderDeclarations (case styles c of None \<Rightarrow> [] | Some kvs \<Rightarrow> kvs)))
            else '''')
           @ css_suffix c)"

text \<open>
  The compile step with the rules trimmed before \<open>css\<close> is appended, as
  \<open>wrapCSSToSelector\<close> returns them.
\<close>

definition compile :: "tool_config \<Rightarrow> string" where
  "compile c =
     trim ((if has_styles c
            then (case selector c of
                    None \<Rightarrow> renderDeclarations (case styles c of None \<Rightarrow> [] | Some kvs \<Rightarrow> kvs)
                  | Some sel \<Rightarrow>
                      if sel = ''''
                      then renderDeclarations (case styles c of None \<Rightarrow> [] | Some kvs \<Rightarrow> kvs)
                      else trim (scopeDeclarations sel (children_or_default c)
                             (renderDeclarations (case styles c of None \<Rightarrow> [] | Some kvs \<Rightarrow> kvs))))
            else '''')
           @ css_suffix c)"

text \<open>A configuration with a selector, one child selector, one style and literal CSS.\<close>

definition scoped_with_css :: tool_config where
  "scoped_with_css =
     \<lparr>cid = Some ''readable-font'', selector = Some ''html.asw-readable-font'',
      childrenSelector = Some [''p''], styles = Some [(''font-family'', ''Arial'')],
      css = Some ''html.asw-readable-font * { line-height: 1.6 !important; }'',
      enable = None\<rparr>"

section \<open>The style injector\<close>

text \<open>
  A call either returns or throws, and what it did to the document before throwing
  stays done.
\<close>

datatype js_error = ReferenceError | TypeError | SyntaxError | InvalidCharacterError

datatype completion = Returned | Thrown js_error

text \<open>
  The part of the live document the tools touch: the class list of the document root
  (\<open>document.documentElement.classList\<close>, an ordered set of tokens) and the elements
  that carry an id, in document order, each with its id and its text.
  \<open>document.getElementById\<close> finds the first element with the id.
\<close>

record document =
  rootClasses :: "string list"
  idElements :: "(string \<times> string) list"

definition classList_add :: "string \<Rightarrow> string list \<Rightarrow> string list" where
  "classList_add token cs = (if token \<in> set cs then cs else cs @ [token])"

definition classList_remove :: "string \<Rightarrow> string list \<Rightarrow> string list" where
  "classList_remove token cs = removeAll token cs"

text \<open>
  \<open>classList.toggle(token, force)\<close> raises a SyntaxError for the empty token and an
  InvalidCharacterError for a token with ASCII white space (TAB, LF, FF, CR, SPACE), before
  it changes anything. The tokens that \<open>enableContrast\<close> itself adds and removes are
  \<open>asw-\<close> followed by a key of the registry: they are valid, and \<open>classList_add\<close> and
  \<open>classList_remove\<close> are used for them as they are.
\<close>

definition ascii_whitespace :: "char \<Rightarrow> bool" where
  "ascii_whitespace c =
     (c = CHR 0x09 \<or> c = CHR 0x0A \<or> c = CHR 0x0C \<or> c = CHR 0x0D \<or> c = CHR 0x20)"

definition classList_toggle :: "string \<Rightarrow> bool \<Rightarrow> string list \<Rightarrow> js_error + string list" where
  "classList_toggle token force cs =
     (if token = '''' then Inl SyntaxError
      else if list_ex ascii_whitespace token then Inl InvalidCharacterError
      else Inr (if force then classList_add token cs else classList_remove token cs))"

text \<open>\<open>document.getElementById(i)?.remove()\<close>: the first element with the id leaves.\<close>

fun remove_by_id :: "string \<Rightarrow> (string \<times> string) list \<Rightarrow> (string \<times> string) list" where
  "remove_by_id i [] = []"
| "remove_by_id i (e # es) = (if fst e = i then es else e # remove_by_id i es)"

text \<open>
  Modelled from the spec: \<open>addStylesheet\<close> (utils/addStylesheet) is imported by the CSS
  generator and is not among the sources. Section 4.2: if the compiled CSS is non-empty,
  create or replace the style resource identified by the resource id with that text; if it
  is empty, no resource is created. Replacing sets the text of the element found by its id,
  creating appends a new element.
\<close>

fun create_or_replace :: "string \<Rightarrow> string \<Rightarrow> (string \<times> string) list \<Rightarrow> (string \<times> string) list" where
  "create_or_replace i t [] = [(i, t)]"
| "create_or_replace i t (e # es) =
     (if fst e = i then (i, t) # es else e # create_or_replace i t es)"

definition addStylesheet :: "string \<Rightarrow> string \<Rightarrow> document \<Rightarrow> document" where
  "addStylesheet cssText i d =
     (if cssText = '''' then d
      else d\<lparr>idElements := create_or_replace i cssText (idElements d)\<rparr>)"

text \<open>
  \<open>injectToolCSS\<close>: \<open>id\<close> defaults to the empty string and \<open>enable\<close> to false. The
  style resource is written or removed first; the toggle of the marker class comes last
  and may raise.
\<close>

definition toolId :: "tool_config \<Rightarrow> string" where
  "toolId config = ''asw-'' @ (case cid config of None \<Rightarrow> '''' | Some i \<Rightarrow> i)"

definition injectToolCSS :: "tool_config \<Rightarrow> document \<Rightarrow> completion \<times> document" where
  "injectToolCSS config d =
     (let en = (case enable config of None \<Rightarrow> False | Some b \<Rightarrow> b);
          d' = (if en
                then addStylesheet (generateCSSFromConfig (Some config)) (toolId config) d
                else d\<lparr>idElements := remove_by_id (toolId config) (idElements d)\<rparr>)
      in case classList_toggle (toolId config) en (rootClasses d') of
           Inl e \<Rightarrow> (Thrown e, d')
         | Inr cs \<Rightarrow> (Returned, d'\<lparr>rootClasses := cs\<rparr>))"

text \<open>
  The style resources of an id. A token is valid when \<open>toggle\<close> accepts it. A document
  is well formed when no id occurs twice and the class list of the root, a set of tokens,
  holds no token twice.
\<close>

definition resources_of :: "string \<Rightarrow> document \<Rightarrow> (string \<times> string) list" where
  "resources_of i d = filter (\<lambda>e. fst e = i) (idElements d)"

definition valid_token :: "string \<Rightarrow> bool" where
  "valid_token token = (token \<noteq> '''' \<and> \<not> list_ex ascii_whitespace token)"

definition wf_document :: "document \<Rightarrow> bool" where
  "wf_document d = (distinct (map fst (idElements d)) \<and> distinct (rootClasses d))"

definition empty_document :: document where
  "empty_document = \<lparr>rootClasses = [], idElements = []\<rparr>"

text \<open>
  Sample inputs: a tool with one style, the same tool switched off, a tool whose id has a
  space in it, and a document in which two elements carry the id of the first tool.
\<close>

definition color_config :: tool_config where
  "color_config =
     \<lparr>cid = Some ''tint'', selector = None, childrenSelector = None,
      styles = Some [(''color'', ''#fff'')], css = None, enable = Some True\<rparr>"

definition color_off_config :: tool_config where
  "color_off_config = color_config\<lparr>enable := Some False\<rparr>"

definition spaced_id_config :: tool_config where
  "spaced_id_config =
     \<lparr>cid = Some ''big text'', selector = None, childrenSelector = None,
      styles = Some [(''color'', ''#fff'')], css = None, enable = Some True\<rparr>"

definition duplicate_id_document :: document where
  "duplicate_id_document =
     \<lparr>rootClasses = [''asw-tint''],
      idElements = [(''asw-tint'', ''color: #fff !important;''),
                    (''asw-tint'', ''color: #000 !important;'')]\<rparr>"

section \<open>The contrast tool\<close>

text \<open>
  \<open>FILTERS\<close> (enum/Filters), in the order of its keys. \<open>TEXT_SELECTORS\<close> comes from
  enum/Selectors, which is not among the sources: it is a parameter.
\<close>

definition FILTERS :: "string list \<Rightarrow> (string \<times> tool_config) list" where
  "FILTERS TEXT_SELECTORS =
     [(''dark-contrast'',
         \<lparr>cid = Some ''dark-contrast'', selector = Some ''html.asw-dark-contrast'',
          childrenSelector = Some (TEXT_SELECTORS @ [''div'', ''span'', ''section'', ''article'',
                                                   ''main'', ''aside'', ''header'', ''footer'']),
          styles = Some [(''color'', ''#FFFFFF''), (''fill'', ''#FFFFFF''),
                         (''background-color'', ''#000000'')],
          css = None, enable = None\<rparr>),
      (''light-contrast'',
         \<lparr>cid = Some ''light-contrast'', selector = Some ''html.asw-light-contrast'',
          childrenSelector = Some (TEXT_SELECTORS @ [''div'', ''span'', ''section'', ''article'',
                                                   ''main'', ''aside'', ''header'', ''footer'']),
          styles = Some [(''color'', ''#000000''), (''fill'', ''#000000''),
                         (''background-color'', ''#FFFFFF'')],
          css = None, enable = None\<rparr>),
      (''high-contrast'',
         \<lparr>cid = Some ''high-contrast'', selector = Some ''html.asw-high-contrast'',
          childrenSelector = Some [''body'', ''*''],
          styles = Some [(''filter'', ''contrast(125%)'')], css = None, enable = None\<rparr>),
      (''high-saturation'',
         \<lparr>cid = Some ''high-saturation'', selector = Some ''html.asw-high-saturation'',
          childrenSelector = Some [''body'', ''*''],
          styles = Some [(''filter'', ''saturate(200%)'')], css = None, enable = None\<rparr>),
      (''low-saturation'',
         \<lparr>cid = Some ''low-saturation'', selector = Some ''html.asw-low-saturation'',
          childrenSelector = Some [''body'', ''*''],
          styles = Some [(''filter'', ''saturate(50%)'')], css = None, enable = None\<rparr>),
      (''monochrome'',
         \<lparr>cid = Some ''monochrome'', selector = Some ''html.asw-monochrome'',
          childrenSelector = Some [''body'', ''*''],
          styles = Some [(''filter'', ''grayscale(100%)'')], css = None, enable = None\<rparr>)]"

text \<open>\<open>s.replace(pat, rep)\<close> with a string pattern replaces the first occurrence.\<close>

fun replace_first :: "string \<Rightarrow> string \<Rightarrow> string \<Rightarrow> string" where
  "replace_first pat rep [] = (if pat = [] then rep else [])"
| "replace_first pat rep (c # cs) =
     (if take (length pat) (c # cs) = pat then rep @ drop (length pat) (c # cs)
      else c # replace_first pat rep cs)"

text \<open>
  \<open>FILTERS[name]\<close> finds the registry's own entries and, \<open>FILTERS\<close> being an object
  literal, the properties it inherits from \<open>Object.prototype\<close>. Those are functions (or,
  for \<open>__proto__\<close>, the prototype itself): truthy, without an \<open>id\<close>, and without any
  own enumerable property for the spread \<open>{...filter}\<close> to copy.
\<close>

definition Object_prototype_names :: "string list" where
  "Object_prototype_names =
     [''constructor'', ''hasOwnProperty'', ''isPrototypeOf'', ''propertyIsEnumerable'',
      ''toLocaleString'', ''toString'', ''valueOf'', ''__proto__'', ''__defineGetter__'',
      ''__defineSetter__'', ''__lookupGetter__'', ''__lookupSetter__'']"

definition no_fields :: tool_config where
  "no_fields =
     \<lparr>cid = None, selector = None, childrenSelector = None, styles = None, css = None,
      enable = None\<rparr>"

definition registry_get :: "(string \<times> tool_config) list \<Rightarrow> string \<Rightarrow> tool_config option" where
  "registry_get filters name =
     (case map_of filters name of
        Some f \<Rightarrow> Some f
      | None \<Rightarrow> if name \<in> set Object_prototype_names then Some no_fields else None)"

text \<open>
  The value of a global variable, as far as \<open>key.replace('asw-', '')\<close> tells values
  apart: a string, or a value that has no method \<open>replace\<close> (a number, or the element
  that the page gives the id \<open>key\<close>), on which the call is a TypeError.
\<close>

datatype js_value = StringValue string | OtherValue

text \<open>
  The clearing loop of \<open>enableContrast\<close>. Its callback binds \<open>className\<close>; the
  \<open>key\<close> in its second statement is bound nowhere in the module and is looked up in the
  global scope. \<open>global_key = None\<close>: no global \<open>key\<close> exists (neither the widget nor the
  browser declares one), and reading it throws a ReferenceError, after the first class has
  been removed. \<open>global_key = Some v\<close>: the host page has a global \<open>key\<close> of value
  \<open>v\<close>; for a string \<open>FILTERS[...]?.id\<close> is the id of that entry, or \<open>undefined\<close>,
  which the template literal prints as such.
\<close>

fun clear_contrast :: "js_value option \<Rightarrow> (string \<times> tool_config) list \<Rightarrow> string list \<Rightarrow> document
    \<Rightarrow> completion \<times> document" where
  "clear_contrast global_key filters [] d = (Returned, d)"
| "clear_contrast global_key filters (className # rest) d =
     (let d1 = d\<lparr>rootClasses := classList_remove className (rootClasses d)\<rparr> in
      case global_key of
        None \<Rightarrow> (Thrown ReferenceError, d1)
      | Some OtherValue \<Rightarrow> (Thrown TypeError, d1)
      | Some (StringValue k) \<Rightarrow>
          (let printed = (case registry_get filters (replace_first ''asw-'' '''' k) of
                            None \<Rightarrow> ''undefined''
                          | Some f \<Rightarrow> (case cid f of None \<Rightarrow> ''undefined'' | Some i \<Rightarrow> i))
           in clear_contrast global_key filters rest
                (d1\<lparr>idElements := remove_by_id (''asw-'' @ printed) (idElements d1)\<rparr>)))"

definition enableContrast :: "js_value option \<Rightarrow> string list \<Rightarrow> string option \<Rightarrow> document
    \<Rightarrow> completion \<times> document" where
  "enableContrast global_key TEXT_SELECTORS contrast d =
     (let contrastClasses = map (\<lambda>k. ''asw-'' @ k) (map fst (FILTERS TEXT_SELECTORS)) in
      case clear_contrast global_key (FILTERS TEXT_SELECTORS) contrastClasses d of
        (Thrown e, d1) \<Rightarrow> (Thrown e, d1)
      | (Returned, d1) \<Rightarrow>
          (case contrast of
             None \<Rightarrow> (Returned, d1)
           | Some name \<Rightarrow>
               (if name = '''' then (Returned, d1)
                else case registry_get (FILTERS TEXT_SELECTORS) name of
                       None \<Rightarrow> (Returned, d1)
                     | Some flt \<Rightarrow>
                         (case injectToolCSS (flt\<lparr>enable := Some True\<rparr>) d1 of
                            (Thrown e, d2) \<Rightarrow> (Thrown e, d2)
                          | (Returned, d2) \<Rightarrow>
                              (Returned,
                               d2\<lparr>rootClasses :=
                                     classList_add (''asw-'' @ name) (rootClasses d2)\<rparr>)))))"

text \<open>The document after \<open>injectToolCSS\<close> has activated the monochrome filter.\<close>

definition monochrome_document :: document where
  "monochrome_document =
     \<lparr>rootClasses = [''asw-monochrome''],
      idElements = [(''asw-monochrome'',
        ''html.asw-monochrome body { -o-filter: grayscale(100%) !important; -ms-filter: grayscale(100%) !important; -moz-filter: grayscale(100%) !important; -webkit-filter: grayscale(100%) !important; filter: grayscale(100%) !important; } html.asw-monochrome * { -o-filter: grayscale(100%) !important; -ms-filter: grayscale(100%) !important; -moz-filter: grayscale(100%) !important; -webkit-filter: grayscale(100%) !important; filter: grayscale(100%) !important; }'')]\<rparr>"

section \<open>The font-size tool (tools/adjustFontSize)\<close>

text \<open>
  Numbers. A JavaScript number is a double; the finite doubles are real numbers, and on
  them comparison, \<open>Math.max\<close> and \<open>Math.min\<close> are those of the reals. The product of
  two doubles is the real product rounded to a double: the rounding is the parameter
  \<open>rnd\<close> of the model, of which only this is used: it is monotone and leaves the
  integers up to \<open>2^53\<close> as they are. (A product too large for a double is infinite,
  and its minimum with 72 is 72, as it is for every real from 72 on.) NaN arises in one place,
  \<open>Number(el.dataset.aswOrgFontSize)\<close> for an attribute that is missing or is no number:
  it is the \<open>None\<close> of the cache. The multiplier is a finite number, as the specification
  has it (a positive real number, 1.0 to restore).
\<close>

definition rounds :: "(real \<Rightarrow> real) \<Rightarrow> bool" where
  "rounds rnd =
     (mono rnd \<and> (\<forall>k::int. \<bar>k\<bar> \<le> 2 ^ 53 \<longrightarrow> rnd (real_of_int k) = real_of_int k))"

text \<open>
  The document is a tree. An element, as far as the tool reads and writes it:
  \<^item> \<open>tagName\<close> and \<open>classList\<close>, which the selectors look at;
  \<^item> \<open>offsetParentNull\<close>: \<open>el.offsetParent === null\<close>; \<open>textContent\<close>;
  \<^item> \<open>aswOrgFontSize\<close>: the number that \<open>Number(el.dataset.aswOrgFontSize)\<close> gives,
    \<open>None\<close> for NaN. The attribute is written as \<open>String(orgFontSize)\<close>, which
    \<open>Number\<close> reads back as the same number;
  \<^item> \<open>sheetFontSize\<close>: the font size that the page's style sheets give the element, an
    absolute length in pixels or a factor of the parent's font size (\<open>em\<close>, per cent;
    an element that inherits has factor 1);
  \<^item> \<open>styleFontSize\<close>: the \<open>font-size\<close> in pixels of its inline style, set with
    priority \<open>important\<close>, if any.
\<close>

datatype font_size = Px real | Rel real

record element =
  tagName :: string
  classList :: "string list"
  offsetParentNull :: bool
  textContent :: string
  aswOrgFontSize :: "real option"
  sheetFontSize :: font_size
  styleFontSize :: "real option"

datatype node = Node element "node list"

text \<open>
  \<open>parseFloat(window.getComputedStyle(el).fontSize)\<close>, given the computed font size of
  the parent as it is at that moment: the inline size when there is one, since an important
  inline declaration wins; else what the style sheets say.
\<close>

definition computedFontSize :: "real \<Rightarrow> element \<Rightarrow> real" where
  "computedFontSize parentSize el =
     (case styleFontSize el of
        Some px \<Rightarrow> px
      | None \<Rightarrow> (case sheetFontSize el of Px n \<Rightarrow> n | Rel r \<Rightarrow> r * parentSize))"

text \<open>
  The selectors: a tag name, or a class with a leading dot. \<open>FONT_SIZE_SELECTOR\<close> is the
  list of the alternatives of the source's selector string.
\<close>

definition FONT_SIZE_SELECTOR :: "string list" where
  "FONT_SIZE_SELECTOR =
     [''h1'', ''h2'', ''h3'', ''h4'', ''h5'', ''h6'', ''p'', ''a'', ''dl'', ''dt'', ''li'', ''ol'',
      ''th'', ''td'', ''span'', ''blockquote'', ''label'', ''button'', ''input'', ''textarea'',
      ''select'', ''.asw-text'']"

definition EXCLUDED_SELECTORS :: "string list" where
  "EXCLUDED_SELECTORS = [''.asw-menu'', ''.asw-widget'', ''.asw-btn'', ''.asw-menu-btn'']"

definition matches :: "string \<Rightarrow> element \<Rightarrow> bool" where
  "matches sel el =
     (case sel of
        [] \<Rightarrow> False
      | c # name \<Rightarrow> if c = CHR ''.'' then name \<in> set (classList el) else sel = tagName el)"

text \<open>
  \<open>el.closest(sel)\<close> is not null, for a class selector \<open>.name\<close>: the element or one
  of its ancestors has the class. \<open>ancestors\<close> holds the class lists of the ancestors.
\<close>

definition closest :: "string \<Rightarrow> string list list \<Rightarrow> element \<Rightarrow> bool" where
  "closest sel ancestors el = list_ex (\<lambda>cs. tl sel \<in> set cs) (classList el # ancestors)"

text \<open>
  The callback of the \<open>forEach\<close>, for an element with the given ancestors and the given
  computed font size of its parent. \<open>ICON_SELECTOR\<close> comes from enum/Selectors, which is
  not among the sources: it is a parameter. \<open>!orgFontSize\<close> holds for NaN and for 0.
\<close>

definition adjustElement ::
    "(real \<Rightarrow> real) \<Rightarrow> string list \<Rightarrow> real \<Rightarrow> string list list \<Rightarrow> real \<Rightarrow> element \<Rightarrow> element" where
  "adjustElement rnd ICON_SELECTOR multiply ancestors parentSize el =
     (if list_ex (\<lambda>cls. cls \<in> set ICON_SELECTOR) (classList el) then el
      else if list_ex (\<lambda>sel. closest sel ancestors el) EXCLUDED_SELECTORS then el
      else if offsetParentNull el \<or> trim (textContent el) = '''' then el
      else
        (let cached = aswOrgFontSize el;
             orgFontSize = (case cached of None \<Rightarrow> computedFontSize parentSize el
                            | Some n \<Rightarrow> if n = 0 then computedFontSize parentSize el else n);
             el1 = (case cached of None \<Rightarrow> el\<lparr>aswOrgFontSize := Some orgFontSize\<rparr>
                    | Some n \<Rightarrow> if n = 0 then el\<lparr>aswOrgFontSize := Some orgFontSize\<rparr> else el);
             newFontSize = max 8 (min 72 (rnd (orgFontSize * multiply)))
         in el1\<lparr>styleFontSize := Some newFontSize\<rparr>))"

text \<open>
  \<open>querySelectorAll(FONT_SIZE_SELECTOR).forEach(...)\<close> visits the matching elements in
  document order and writes to the live document: an element is visited after its
  ancestors, and the computed font size it then has is the one that follows from what its
  ancestors were given. \<open>adjustNode\<close> walks a subtree in that order, handing each child
  the class lists of its ancestors and the computed font size of its parent after the
  parent's own visit.
\<close>

fun adjustNode ::
    "(real \<Rightarrow> real) \<Rightarrow> string list \<Rightarrow> real \<Rightarrow> string list list \<Rightarrow> real \<Rightarrow> node \<Rightarrow> node" where
  "adjustNode rnd ICON_SELECTOR multiply ancestors parentSize (Node el kids) =
     (let el' = (if list_ex (\<lambda>sel. matches sel el) FONT_SIZE_SELECTOR
                 then adjustElement rnd ICON_SELECTOR multiply ancestors parentSize el
                 else el)
      in Node el'
           (map (adjustNode rnd ICON_SELECTOR multiply (classList el' # ancestors)
                   (computedFontSize parentSize el'))
                kids))"

text \<open>
  The page: the computed font size of the document root, the elements below it, and
  \<open>document.documentElement.dataset.aswFontMultiplier\<close>, as the number whose string it
  holds. The parameter default makes an undefined argument 1.
\<close>

record page =
  rootFontSize :: real
  children :: "node list"
  aswFontMultiplier :: "real option"

definition adjustFontSize :: "(real \<Rightarrow> real) \<Rightarrow> string list \<Rightarrow> real option \<Rightarrow> page \<Rightarrow> page" where
  "adjustFontSize rnd ICON_SELECTOR arg pg =
     (let multiply = (case arg of None \<Rightarrow> 1 | Some m \<Rightarrow> m) in
      pg\<lparr>children := map (adjustNode rnd ICON_SELECTOR multiply [] (rootFontSize pg)) (children pg),
         aswFontMultiplier := Some multiply\<rparr>)"

subsection \<open>Reading a page\<close>

text \<open>
  The elements of a subtree in document order, each with the class lists of its ancestors
  and the computed font size of its parent; the elements of a page; and the parts of the
  \<open>i\<close>-th of them.
\<close>

fun flatten :: "string list list \<Rightarrow> real \<Rightarrow> node \<Rightarrow> (string list list \<times> real \<times> element) list" where
  "flatten ancestors parentSize (Node el kids) =
     (ancestors, parentSize, el)
       # concat (map (flatten (classList el # ancestors) (computedFontSize parentSize el)) kids)"

definition page_elements :: "page \<Rightarrow> (string list list \<times> real \<times> element) list" where
  "page_elements pg = concat (map (flatten [] (rootFontSize pg)) (children pg))"

definition ancestors_at :: "page \<Rightarrow> nat \<Rightarrow> string list list" where
  "ancestors_at pg i = fst (page_elements pg ! i)"

definition parent_size_at :: "page \<Rightarrow> nat \<Rightarrow> real" where
  "parent_size_at pg i = fst (snd (page_elements pg ! i))"

definition element_at :: "page \<Rightarrow> nat \<Rightarrow> element" where
  "element_at pg i = snd (snd (page_elements pg ! i))"

definition font_size_at :: "page \<Rightarrow> nat \<Rightarrow> real" where
  "font_size_at pg i = computedFontSize (parent_size_at pg i) (element_at pg i)"

text \<open>
  What the loop does to one element: the callback when the selector matches, nothing
  otherwise.
\<close>

definition visit ::
    "(real \<Rightarrow> real) \<Rightarrow> string list \<Rightarrow> real \<Rightarrow> string list list \<Rightarrow> real \<Rightarrow> element \<Rightarrow> element" where
  "visit rnd ICON_SELECTOR multiply ancestors parentSize el =
     (if list_ex (\<lambda>sel. matches sel el) FONT_SIZE_SELECTOR
      then adjustElement rnd ICON_SELECTOR multiply ancestors parentSize el
      else el)"

text \<open>
  An entry of a page after the loop comes from an entry of the page before it: same
  ancestors, and the element as the loop leaves it when it meets it with the computed font
  size that its parent has then.
\<close>

definition visited_from ::
    "(real \<Rightarrow> real) \<Rightarrow> string list \<Rightarrow> real \<Rightarrow> (string list list \<times> real \<times> element)
       \<Rightarrow> (string list list \<times> real \<times> element) \<Rightarrow> bool" where
  "visited_from rnd icons m x y =
     (fst y = fst x \<and> snd (snd y) = visit rnd icons m (fst x) (fst (snd y)) (snd (snd x)))"

subsection \<open>The words of the specification\<close>

definition clamp :: "real \<Rightarrow> real \<Rightarrow> real \<Rightarrow> real" where
  "clamp x lo hi = (if x < lo then lo else if hi < x then hi else x)"

definition carries_icon_class :: "string list \<Rightarrow> element \<Rightarrow> bool" where
  "carries_icon_class ICON_SELECTOR el = (set (classList el) \<inter> set ICON_SELECTOR \<noteq> {})"

definition in_widget_subtree :: "string list list \<Rightarrow> element \<Rightarrow> bool" where
  "in_widget_subtree ancestors el =
     (closest ''.asw-menu'' ancestors el \<or> closest ''.asw-widget'' ancestors el
      \<or> closest ''.asw-btn'' ancestors el \<or> closest ''.asw-menu-btn'' ancestors el)"

definition no_layout_box :: "element \<Rightarrow> bool" where
  "no_layout_box el = offsetParentNull el"

definition no_visible_text :: "element \<Rightarrow> bool" where
  "no_visible_text el = (trim (textContent el) = '''')"

definition is_selected :: "element \<Rightarrow> bool" where
  "is_selected el =
     (tagName el \<in> {''h1'', ''h2'', ''h3'', ''h4'', ''h5'', ''h6'', ''p'', ''a'', ''dl'', ''dt'',
                     ''li'', ''ol'', ''th'', ''td'', ''span'', ''blockquote'', ''label'',
                     ''button'', ''input'', ''textarea'', ''select''}
      \<or> ''asw-text'' \<in> set (classList el))"

text \<open>
  An element the tool adjusts is a text-bearing element that none of the four exclusions
  holds for.
\<close>

definition is_adjusted :: "string list \<Rightarrow> string list list \<Rightarrow> element \<Rightarrow> bool" where
  "is_adjusted ICON_SELECTOR ancestors el =
     (is_selected el \<and> \<not> carries_icon_class ICON_SELECTOR el
      \<and> \<not> in_widget_subtree ancestors el \<and> \<not> no_layout_box el \<and> \<not> no_visible_text el)"

text \<open>Font sizes are lengths, never negative: in an element, in a subtree, in a page.\<close>

definition wf_element :: "element \<Rightarrow> bool" where
  "wf_element el =
     ((case sheetFontSize el of Px n \<Rightarrow> 0 \<le> n | Rel r \<Rightarrow> 0 \<le> r)
      \<and> (case styleFontSize el of None \<Rightarrow> True | Some px \<Rightarrow> 0 \<le> px)
      \<and> (case aswOrgFontSize el of None \<Rightarrow> True | Some n \<Rightarrow> 0 \<le> n))"

fun wf_node :: "node \<Rightarrow> bool" where
  "wf_node (Node el kids) = (wf_element el \<and> list_all wf_node kids)"

definition wf_page :: "page \<Rightarrow> bool" where
  "wf_page pg = (0 \<le> rootFontSize pg \<and> list_all wf_node (children pg))"

text \<open>
  A sample page, with the root at 16px: a paragraph of 16px that holds a span and an icon,
  both inheriting their size; the menu of the widget (a \<open>div\<close>) with a button of 14px;
  a heading of 100px. In document order: paragraph 0, span 1, icon 2, menu 3, button 4,
  heading 5.
\<close>

definition text_element :: "string \<Rightarrow> string list \<Rightarrow> string \<Rightarrow> font_size \<Rightarrow> element" where
  "text_element tag classes content given =
     \<lparr>tagName = tag, classList = classes, offsetParentNull = False, textContent = content,
      aswOrgFontSize = None, sheetFontSize = given, styleFontSize = None\<rparr>"

definition sample_page :: page where
  "sample_page =
     \<lparr>rootFontSize = 16,
      children =
        [Node (text_element ''p'' [''intro''] ''Hello world home'' (Px 16))
           [Node (text_element ''span'' [] ''world'' (Rel 1)) [],
            Node (text_element ''span'' [''material-icons''] ''home'' (Rel 1)) []],
         Node (text_element ''div'' [''asw-menu''] ''Bigger text'' (Rel 1))
           [Node (text_element ''button'' [''asw-btn''] ''Bigger text'' (Px 14)) []],
         Node (text_element ''h1'' [] ''Title'' (Px 100)) []],
      aswFontMultiplier = None\<rparr>"

text \<open>The sample page after \<open>adjustFontSize(2)\<close>.\<close>

definition sample_page_doubled :: page where
  "sample_page_doubled =
     \<lparr>rootFontSize = 16,
      children =
        [Node ((text_element ''p'' [''intro''] ''Hello world home'' (Px 16))
                 \<lparr>aswOrgFontSize := Some 16, styleFontSize := Some 32\<rparr>)
           [Node ((text_element ''span'' [] ''world'' (Rel 1))
                    \<lparr>aswOrgFontSize := Some 32, styleFontSize := Some 64\<rparr>) [],
            Node (text_element ''span'' [''material-icons''] ''home'' (Rel 1)) []],
         Node (text_element ''div'' [''asw-menu''] ''Bigger text'' (Rel 1))
           [Node (text_element ''button'' [''asw-btn''] ''Bigger text'' (Px 14)) []],
         Node ((text_element ''h1'' [] ''Title'' (Px 100))
                 \<lparr>aswOrgFontSize := Some 100, styleFontSize := Some 72\<rparr>) []],
      aswFontMultiplier = Some 2\<rparr>"

definition sample_icons :: "string list" where
  "sample_icons = [''material-icons'', ''fa'']"

section \<open>Properties of trimming\<close>

lemma is_ws_space [simp]: "is_ws CHR '' ''"
  by (simp add: is_ws_def)

lemma trim_Nil [simp]: "trim [] = []"
  by (simp add: trim_def)

lemma dropWhile_ws_snoc:
  "dropWhile is_ws (s @ [CHR '' '']) =
     (if dropWhile is_ws s = [] then [] else dropWhile is_ws s @ [CHR '' ''])"
  by (induction s) auto

lemma trim_snoc_space [simp]: "trim (s @ '' '') = trim s"
proof (cases "dropWhile is_ws s = []")
  case True
  then have a: "dropWhile is_ws (s @ '' '') = []"
    by (simp add: dropWhile_ws_snoc del: dropWhile_eq_Nil_conv)
  show ?thesis
    unfolding trim_def a True by (rule refl)
next
  case False
  then have a: "dropWhile is_ws (s @ '' '') = dropWhile is_ws s @ '' ''"
    by (simp add: dropWhile_ws_snoc del: dropWhile_eq_Nil_conv)
  show ?thesis
    unfolding trim_def a by simp
qed

section \<open>The declaration renderer\<close>

lemma fold_append_concat: "fold (\<lambda>x acc. acc @ f x) xs acc = acc @ concat (map f xs)"
  by (induction xs arbitrary: acc) simp_all

lemma style_step:
  "(\<lambda>(key, val) acc.
       fold (\<lambda>prefix acc'. acc' @ prefix @ key @ '': '' @ val @ '' !important; '')
            (if key \<in> set propertiesNeedPrefix then browserPrefixes else [''''])
            acc) =
   (\<lambda>kv acc. acc @ concat (map (\<lambda>d. d @ '' '') (declarations kv)))"
proof (rule ext, rule ext)
  fix kv :: "string \<times> string" and acc :: string
  obtain k v where kv: "kv = (k, v)" by (cases kv)
  have "fold (\<lambda>prefix acc'. acc' @ prefix @ k @ '': '' @ v @ '' !important; '') ps acc =
        acc @ concat (map (\<lambda>prefix. prefix @ k @ '': '' @ v @ '' !important; '') ps)" for ps
    by (rule fold_append_concat)
  then show "(case kv of (key, val) \<Rightarrow> \<lambda>acc.
       fold (\<lambda>prefix acc'. acc' @ prefix @ key @ '': '' @ val @ '' !important; '')
            (if key \<in> set propertiesNeedPrefix then browserPrefixes else [''''])
            acc) acc =
     acc @ concat (map (\<lambda>d. d @ '' '') (declarations kv))"
    by (simp add: kv declarations_def comp_def)
qed

lemma fold_declarations:
  "fold (\<lambda>kv acc. acc @ concat (map (\<lambda>d. d @ '' '') (declarations kv))) kvs acc =
   acc @ concat (map (\<lambda>d. d @ '' '') (concat (map declarations kvs)))"
  by (induction kvs arbitrary: acc) simp_all

lemma fold_styles:
  "fold (\<lambda>(key, val) acc.
           fold (\<lambda>prefix acc'. acc' @ prefix @ key @ '': '' @ val @ '' !important; '')
                (if key \<in> set propertiesNeedPrefix then browserPrefixes else [''''])
                acc)
        kvs acc =
   acc @ concat (map (\<lambda>d. d @ '' '') (concat (map declarations kvs)))"
  by (simp only: style_step fold_declarations)

lemma concat_spaced:
  "concat (map (\<lambda>d. d @ '' '') ds) = (if ds = [] then [] else join_space ds @ '' '')"
  by (induction ds rule: join_space.induct) simp_all

lemma trim_concat_spaced: "trim (concat (map (\<lambda>d. d @ '' '') ds)) = trim (join_space ds)"
  by (cases "ds = []") (simp_all add: concat_spaced del: append_assoc)

lemma generateCSS_render: "generateCSS (Some kvs) = renderDeclarations kvs"
  unfolding generateCSS_def renderDeclarations_def
  by (simp only: option.case fold_styles append_Nil trim_concat_spaced)

text \<open>
  Claim C3. For every styles map, \<open>generateCSS\<close> emits for the property \<open>filter\<close> (the
  only member of the vendor-prefix set) one declaration per prefix in the order \<open>-o-\<close>,
  \<open>-ms-\<close>, \<open>-moz-\<close>, \<open>-webkit-\<close>, unprefixed, and for every other property exactly
  one unprefixed declaration; every declaration ends in \<open>!important;\<close>; the output is
  the declarations separated by a single space, trimmed. \<open>{ filter: "grayscale(100%)" }\<close>
  gives five declarations in that order, \<open>{ color: "#fff" }\<close> gives one.
\<close>

theorem generateCSS_renders_declarations:
  "generateCSS (Some kvs) = renderDeclarations kvs
   \<and> renderDeclarations kvs = trim (join_space (concat (map declarations kvs)))
   \<and> declarations (k, v) =
       (if k = ''filter''
        then [''-o-filter: '' @ v @ '' !important;'', ''-ms-filter: '' @ v @ '' !important;'',
              ''-moz-filter: '' @ v @ '' !important;'', ''-webkit-filter: '' @ v @ '' !important;'',
              ''filter: '' @ v @ '' !important;'']
        else [k @ '': '' @ v @ '' !important;''])
   \<and> declarations (''filter'', ''grayscale(100%)'') =
       [''-o-filter: grayscale(100%) !important;'', ''-ms-filter: grayscale(100%) !important;'',
        ''-moz-filter: grayscale(100%) !important;'', ''-webkit-filter: grayscale(100%) !important;'',
        ''filter: grayscale(100%) !important;'']
   \<and> generateCSS (Some [(''filter'', ''grayscale(100%)'')]) =
       ''-o-filter: grayscale(100%) !important; -ms-filter: grayscale(100%) !important; -moz-filter: grayscale(100%) !important; -webkit-filter: grayscale(100%) !important; filter: grayscale(100%) !important;''
   \<and> declarations (''color'', ''#fff'') = [''color: #fff !important;'']
   \<and> generateCSS (Some [(''color'', ''#fff'')]) = ''color: #fff !important;''"
proof -
  have main: "generateCSS (Some kvs) = renderDeclarations kvs"
    by (rule generateCSS_render)
  have decl: "declarations (k, v) =
     (if k = ''filter''
      then [''-o-filter: '' @ v @ '' !important;'', ''-ms-filter: '' @ v @ '' !important;'',
            ''-moz-filter: '' @ v @ '' !important;'', ''-webkit-filter: '' @ v @ '' !important;'',
            ''filter: '' @ v @ '' !important;'']
      else [k @ '': '' @ v @ '' !important;''])" for k v
    by (simp add: declarations_def propertiesNeedPrefix_def browserPrefixes_def)
  have d5: "declarations (''filter'', ''grayscale(100%)'') =
       [''-o-filter: grayscale(100%) !important;'', ''-ms-filter: grayscale(100%) !important;'',
        ''-moz-filter: grayscale(100%) !important;'', ''-webkit-filter: grayscale(100%) !important;'',
        ''filter: grayscale(100%) !important;'']"
    by (simp add: decl)
  have g5: "generateCSS (Some [(''filter'', ''grayscale(100%)'')]) =
     ''-o-filter: grayscale(100%) !important; -ms-filter: grayscale(100%) !important; -moz-filter: grayscale(100%) !important; -webkit-filter: grayscale(100%) !important; filter: grayscale(100%) !important;''"
    by (simp add: generateCSS_def propertiesNeedPrefix_def browserPrefixes_def trim_def is_ws_def)
  have d1: "declarations (''color'', ''#fff'') = [''color: #fff !important;'']"
    by (simp add: decl)
  have g1: "generateCSS (Some [(''color'', ''#fff'')]) = ''color: #fff !important;''"
    by (simp add: generateCSS_def propertiesNeedPrefix_def browserPrefixes_def trim_def is_ws_def)
  show ?thesis
    using main decl [of k v] d5 g5 d1 g1 by (simp only: renderDeclarations_def simp_thms)
qed

section \<open>The compile step\<close>

lemma trim_eq_Nil_iff: "trim s = [] \<longleftrightarrow> dropWhile is_ws s = []"
proof (cases "dropWhile is_ws s")
  case Nil
  then show ?thesis by (simp add: trim_def del: dropWhile_eq_Nil_conv)
next
  case (Cons y ys)
  then have "\<not> is_ws (hd (dropWhile is_ws s))"
    using hd_dropWhile [of is_ws s] by simp
  with Cons have "\<not> is_ws y" by simp
  with Cons show ?thesis
    by (auto simp: trim_def)
qed

lemma trim_nonempty: "c \<in> set s \<Longrightarrow> \<not> is_ws c \<Longrightarrow> trim s \<noteq> []"
  by (auto simp: trim_eq_Nil_iff)

lemma colon_not_ws: "\<not> is_ws CHR '':''"
  by (simp add: is_ws_def)

lemma colon_in_declarations: "\<exists>d \<in> set (declarations kv). CHR '':'' \<in> set d"
  by (auto simp: declarations_def browserPrefixes_def)

lemma generateCSS_None: "generateCSS None = []"
  by (simp add: generateCSS_def)

lemma generateCSS_Some_Nil: "generateCSS (Some []) = []"
  by (simp add: generateCSS_def)

lemma generateCSS_Some_Cons: "generateCSS (Some (kv # kvs)) \<noteq> []"
proof -
  obtain d where d: "d \<in> set (declarations kv)" "CHR '':'' \<in> set d"
    using colon_in_declarations by blast
  have "CHR '':'' \<in> set (concat (map (\<lambda>d. d @ '' '') (concat (map declarations (kv # kvs)))))"
    using d by auto
  then have "trim (concat (map (\<lambda>d. d @ '' '') (concat (map declarations (kv # kvs))))) \<noteq> []"
    using colon_not_ws by (rule trim_nonempty)
  then show ?thesis
    unfolding generateCSS_def
    by (simp only: option.case fold_styles append_Nil simp_thms)
qed

lemma generateCSS_eq_Nil_iff: "generateCSS (styles c) = [] \<longleftrightarrow> \<not> has_styles c"
proof (cases "styles c")
  case None
  then show ?thesis by (simp add: generateCSS_None has_styles_def)
next
  case (Some kvs)
  then show ?thesis
    by (cases kvs) (simp_all add: generateCSS_Some_Nil generateCSS_Some_Cons has_styles_def)
qed

lemma wrapCSSToSelector_scope:
  "wrapCSSToSelector sel (Some cs) block = trim (scopeDeclarations sel cs block)"
proof -
  have "fold (\<lambda>childSelector output.
                   output @ (if childSelector \<noteq> '''' then sel @ '' '' @ childSelector else sel)
                          @ '' { '' @ block @ '' } '') cs acc =
        acc @ concat (map (\<lambda>childSelector.
                  (if childSelector \<noteq> '''' then sel @ '' '' @ childSelector else sel)
                          @ '' { '' @ block @ '' } '') cs)" for acc
    by (rule fold_append_concat)
  then show ?thesis
    unfolding wrapCSSToSelector_def scopeDeclarations_def fullSelector_def
    by (simp only: option.case append_Nil)
qed

lemma trim_css_suffix:
  "trim (if truthy (css c) then out @ '' '' @ (case css c of None \<Rightarrow> '''' | Some t \<Rightarrow> t) else out) =
   trim (out @ css_suffix c)"
proof (cases "css c")
  case None
  then show ?thesis by (simp add: truthy_def css_suffix_def)
next
  case (Some t)
  show ?thesis
  proof (cases "t = []")
    case True
    have "trim (out @ '' '') = trim out" by (rule trim_snoc_space)
    with True Some show ?thesis by (simp add: truthy_def css_suffix_def)
  next
    case False
    with Some show ?thesis by (simp add: truthy_def css_suffix_def)
  qed
qed

lemma styles_of: "has_styles c \<Longrightarrow> Some (case styles c of None \<Rightarrow> [] | Some kvs \<Rightarrow> kvs) = styles c"
  by (simp add: has_styles_def split: option.splits)

text \<open>
  Claim C8, as the code has it. For every configuration, and so for every one with
  non-empty styles: with a selector set, \<open>generateCSSFromConfig\<close> emits one rule
  \<open>"fullSelector { block } "\<close> per entry of \<open>childrenSelector\<close> (a single empty entry
  when the list is undefined), \<open>fullSelector\<close> being \<open>"selector childSelector"\<close> for a
  non-empty entry and the selector alone for an empty one, concatenated in list order and
  then trimmed; without a selector it emits the bare declaration block; \<open>config.css\<close>,
  when present, is appended space-prefixed; the result is trimmed.
\<close>

theorem generateCSSFromConfig_compile:
  "generateCSSFromConfig (Some c) = compile c"
proof -
  have render: "has_styles c \<Longrightarrow>
      renderDeclarations (case styles c of None \<Rightarrow> [] | Some kvs \<Rightarrow> kvs) = generateCSS (styles c)"
    using generateCSS_render styles_of [of c] by metis
  show ?thesis
  proof (cases "has_styles c")
    case False
    then have "generateCSS (styles c) = []" by (simp add: generateCSS_eq_Nil_iff)
    with False show ?thesis
      unfolding generateCSSFromConfig_def compile_def
      by (simp only: option.case Let_def trim_css_suffix simp_thms if_False if_True)
  next
    case True
    then have ne: "generateCSS (styles c) \<noteq> []" by (simp add: generateCSS_eq_Nil_iff)
    show ?thesis
    proof (cases "truthy (selector c)")
      case False
      then have "(case selector c of None \<Rightarrow> R | Some sel \<Rightarrow> if sel = [] then R else W sel) = R"
        for R :: string and W :: "string \<Rightarrow> string"
        by (auto simp: truthy_def split: option.splits)
      with False True ne show ?thesis
        unfolding generateCSSFromConfig_def compile_def
        by (simp only: option.case Let_def trim_css_suffix render simp_thms if_False if_True)
    next
      case sel: True
      then obtain t where t: "selector c = Some t" "t \<noteq> []"
        by (auto simp: truthy_def split: option.splits)
      with True ne sel show ?thesis
        unfolding generateCSSFromConfig_def compile_def children_or_default_def
        by (simp only: option.case Let_def trim_css_suffix render wrapCSSToSelector_scope
            simp_thms if_False if_True)
    qed
  qed
qed

text \<open>
  Claim C8 as stated has one trim, at the end, so that the trailing space of the last rule
  and the space before \<open>css\<close> both stay. \<open>wrapCSSToSelector\<close> trims the rules first:
  one space separates the last rule from the literal CSS.
\<close>

theorem compile_one_trim_counterexample:
  "generateCSSFromConfig (Some scoped_with_css) =
     ''html.asw-readable-font p { font-family: Arial !important; } html.asw-readable-font * { line-height: 1.6 !important; }''
   \<and> compile_one_trim scoped_with_css =
     ''html.asw-readable-font p { font-family: Arial !important; }  html.asw-readable-font * { line-height: 1.6 !important; }''
   \<and> generateCSSFromConfig (Some scoped_with_css) \<noteq> compile_one_trim scoped_with_css"
  by (simp add: generateCSSFromConfig_def compile_one_trim_def scoped_with_css_def generateCSS_def
     renderDeclarations_def declarations_def wrapCSSToSelector_def scopeDeclarations_def fullSelector_def
     has_styles_def children_or_default_def css_suffix_def truthy_def propertiesNeedPrefix_def
     browserPrefixes_def trim_def is_ws_def)

section \<open>Idempotence of the style injector\<close>

lemma count_list_absent: "t \<notin> set cs \<Longrightarrow> count_list cs t = 0"
  by (induction cs) auto

lemma count_list_distinct: "distinct cs \<Longrightarrow> t \<in> set cs \<Longrightarrow> count_list cs t = 1"
  by (induction cs) (auto simp: count_list_absent)

lemma count_classList_add:
  "distinct cs \<Longrightarrow> count_list (classList_add t cs) t = 1"
  by (simp add: classList_add_def count_list_distinct count_list_absent)

lemma ids_create_or_replace:
  "map fst (create_or_replace i t es) =
     (if i \<in> fst ` set es then map fst es else map fst es @ [i])"
  by (induction es) auto

lemma distinct_create_or_replace:
  "distinct (map fst es) \<Longrightarrow> distinct (map fst (create_or_replace i t es))"
  by (simp add: ids_create_or_replace)

lemma create_or_replace_idem:
  "create_or_replace i t (create_or_replace i t es) = create_or_replace i t es"
  by (induction es) auto

lemma filter_absent: "i \<notin> fst ` set es \<Longrightarrow> filter (\<lambda>e. fst e = i) es = []"
  by (induction es) auto

lemma filter_create_or_replace:
  "distinct (map fst es) \<Longrightarrow> filter (\<lambda>e. fst e = i) (create_or_replace i t es) = [(i, t)]"
  by (induction es) (auto simp: filter_absent)

lemma remove_by_id_absent: "i \<notin> fst ` set es \<Longrightarrow> remove_by_id i es = es"
  by (induction es) auto

lemma ids_remove_by_id: "set (remove_by_id i es) \<subseteq> set es"
  by (induction es) auto

lemma distinct_remove_by_id:
  "distinct (map fst es) \<Longrightarrow> distinct (map fst (remove_by_id i es))"
  using ids_remove_by_id [of i] by (induction es) (auto simp: image_iff)

lemma remove_by_id_gone:
  "distinct (map fst es) \<Longrightarrow> i \<notin> fst ` set (remove_by_id i es)"
  using ids_remove_by_id [of i] by (induction es) (auto simp: image_iff)

lemma remove_by_id_idem:
  "distinct (map fst es) \<Longrightarrow> remove_by_id i (remove_by_id i es) = remove_by_id i es"
  by (simp add: remove_by_id_absent remove_by_id_gone)

lemma enabled_cases:
  obtains "enable c = Some True" | "enable c = None \<or> enable c = Some False"
  by (cases "enable c") auto

lemma toolId_not_empty: "toolId c \<noteq> []"
  by (simp add: toolId_def)

lemma classList_toggle_toolId:
  "classList_toggle (toolId c) force cs =
     (if valid_token (toolId c)
      then Inr (if force then classList_add (toolId c) cs else classList_remove (toolId c) cs)
      else Inl InvalidCharacterError)"
  by (simp add: classList_toggle_def valid_token_def toolId_not_empty)

lemma injectToolCSS_enabled:
  "enable c = Some True \<Longrightarrow>
   injectToolCSS c d =
     (if valid_token (toolId c) then Returned else Thrown InvalidCharacterError,
      \<lparr>rootClasses = (if valid_token (toolId c) then classList_add (toolId c) (rootClasses d)
                      else rootClasses d),
       idElements = (if generateCSSFromConfig (Some c) = [] then idElements d
                     else create_or_replace (toolId c) (generateCSSFromConfig (Some c))
                            (idElements d))\<rparr>)"
  by (simp add: injectToolCSS_def addStylesheet_def classList_toggle_toolId)

lemma injectToolCSS_disabled:
  "enable c = None \<or> enable c = Some False \<Longrightarrow>
   injectToolCSS c d =
     (if valid_token (toolId c) then Returned else Thrown InvalidCharacterError,
      \<lparr>rootClasses = (if valid_token (toolId c) then classList_remove (toolId c) (rootClasses d)
                      else rootClasses d),
       idElements = remove_by_id (toolId c) (idElements d)\<rparr>)"
  by (auto simp: injectToolCSS_def classList_toggle_toolId)

lemma classList_add_idem: "classList_add t (classList_add t cs) = classList_add t cs"
  by (simp add: classList_add_def)

lemma classList_remove_idem: "classList_remove t (classList_remove t cs) = classList_remove t cs"
  by (simp add: classList_remove_def)

lemma distinct_classList_add: "distinct cs \<Longrightarrow> distinct (classList_add t cs)"
  by (simp add: classList_add_def)

lemma distinct_classList_remove: "distinct cs \<Longrightarrow> distinct (classList_remove t cs)"
  by (simp add: classList_remove_def distinct_removeAll)

lemma wf_injectToolCSS: "wf_document d \<Longrightarrow> wf_document (snd (injectToolCSS c d))"
  by (cases c rule: enabled_cases)
     (simp_all add: injectToolCSS_enabled injectToolCSS_disabled wf_document_def
        distinct_create_or_replace distinct_remove_by_id distinct_classList_add
        distinct_classList_remove)

lemma injectToolCSS_idem:
  "wf_document d \<Longrightarrow> injectToolCSS c (snd (injectToolCSS c d)) = injectToolCSS c d"
  by (cases c rule: enabled_cases)
     (simp_all add: injectToolCSS_enabled injectToolCSS_disabled wf_document_def
        create_or_replace_idem remove_by_id_idem classList_add_idem classList_remove_idem)

lemma resources_after_enable:
  assumes "wf_document d" and "enable c = Some True" and "generateCSSFromConfig (Some c) \<noteq> []"
  shows "resources_of (toolId c) (snd (injectToolCSS c d)) =
           [(toolId c, generateCSSFromConfig (Some c))]"
  using assms
  by (simp add: injectToolCSS_enabled resources_of_def wf_document_def filter_create_or_replace)

lemma marker_after_enable:
  assumes "wf_document d" and "enable c = Some True" and "valid_token (toolId c)"
  shows "fst (injectToolCSS c d) = Returned"
    and "count_list (rootClasses (snd (injectToolCSS c d))) (toolId c) = 1"
  using assms
  by (simp_all add: injectToolCSS_enabled wf_document_def count_classList_add)

lemma invalid_token_throws:
  assumes "\<not> valid_token (toolId c)"
  shows "fst (injectToolCSS c d) = Thrown InvalidCharacterError"
    and "rootClasses (snd (injectToolCSS c d)) = rootClasses d"
  using assms
  by (cases c rule: enabled_cases;
      simp add: injectToolCSS_enabled injectToolCSS_disabled)+

text \<open>
  Claim C2, as the code has it. On a document in which no id occurs twice (and the class
  list of the root holds no token twice), for every configuration and every \<open>enable\<close>:
  \<open>injectToolCSS\<close> called again with the same configuration completes as the first call
  did and leaves the document as the first call left it. With \<open>enable\<close> true, called
  twice: when the compiled CSS is not empty there is exactly one style resource for the
  tool id and it holds the compiled CSS, also after a call with another configuration of
  the same id (the resource is replaced, not accumulated), and when it is empty no resource
  is created; when the id gives a valid class token the marker class is present exactly
  once. When the id gives no valid token (white space in it), each call raises an
  InvalidCharacterError and leaves the class list as it was.
\<close>

theorem injectToolCSS_idempotent:
  assumes "wf_document d"
  shows "injectToolCSS c (snd (injectToolCSS c d)) = injectToolCSS c d
       \<and> wf_document (snd (injectToolCSS c d))
       \<and> (enable c = Some True \<and> valid_token (toolId c) \<longrightarrow>
            fst (injectToolCSS c d) = Returned
            \<and> count_list (rootClasses (snd (injectToolCSS c (snd (injectToolCSS c d)))))
                 (toolId c) = 1)
       \<and> (enable c = Some True \<and> generateCSSFromConfig (Some c) \<noteq> '''' \<longrightarrow>
            resources_of (toolId c) (snd (injectToolCSS c (snd (injectToolCSS c d)))) =
              [(toolId c, generateCSSFromConfig (Some c))])
       \<and> (enable c = Some True \<and> generateCSSFromConfig (Some c) = '''' \<longrightarrow>
            idElements (snd (injectToolCSS c (snd (injectToolCSS c d)))) = idElements d)
       \<and> (enable c = Some True \<and> enable c' = Some True \<and> toolId c' = toolId c
          \<and> generateCSSFromConfig (Some c') \<noteq> '''' \<longrightarrow>
            resources_of (toolId c) (snd (injectToolCSS c' (snd (injectToolCSS c d)))) =
              [(toolId c, generateCSSFromConfig (Some c'))])
       \<and> (\<not> valid_token (toolId c) \<longrightarrow>
            fst (injectToolCSS c d) = Thrown InvalidCharacterError
            \<and> rootClasses (snd (injectToolCSS c d)) = rootClasses d)"
proof -
  note wf1 = wf_injectToolCSS [OF assms, of c]
  have idem: "injectToolCSS c (snd (injectToolCSS c d)) = injectToolCSS c d"
    using assms by (rule injectToolCSS_idem)
  have marker: "enable c = Some True \<Longrightarrow> valid_token (toolId c) \<Longrightarrow>
      fst (injectToolCSS c d) = Returned
      \<and> count_list (rootClasses (snd (injectToolCSS c (snd (injectToolCSS c d))))) (toolId c) = 1"
    using marker_after_enable [OF assms, of c] marker_after_enable [OF wf1] by simp
  have one: "enable c = Some True \<Longrightarrow> generateCSSFromConfig (Some c) \<noteq> '''' \<Longrightarrow>
      resources_of (toolId c) (snd (injectToolCSS c (snd (injectToolCSS c d)))) =
        [(toolId c, generateCSSFromConfig (Some c))]"
    using wf1 by (rule resources_after_enable)
  have none: "enable c = Some True \<Longrightarrow> generateCSSFromConfig (Some c) = '''' \<Longrightarrow>
      idElements (snd (injectToolCSS c (snd (injectToolCSS c d)))) = idElements d"
    by (simp add: injectToolCSS_enabled)
  have latest: "enable c' = Some True \<Longrightarrow> toolId c' = toolId c \<Longrightarrow>
      generateCSSFromConfig (Some c') \<noteq> '''' \<Longrightarrow>
      resources_of (toolId c) (snd (injectToolCSS c' (snd (injectToolCSS c d)))) =
        [(toolId c, generateCSSFromConfig (Some c'))]"
    using resources_after_enable [OF wf1, of c'] by simp
  note invalid = invalid_token_throws [of c d]
  show ?thesis
    using idem wf1 marker one none latest invalid by blast
qed

text \<open>The claim at the empty document and a tool with one style.\<close>

theorem injectToolCSS_idempotent_witness:
  "wf_document empty_document
   \<and> enable color_config = Some True
   \<and> valid_token (toolId color_config)
   \<and> generateCSSFromConfig (Some color_config) = ''color: #fff !important;''
   \<and> toolId color_config = ''asw-tint''
   \<and> injectToolCSS color_config (snd (injectToolCSS color_config empty_document)) =
       injectToolCSS color_config empty_document
   \<and> fst (injectToolCSS color_config empty_document) = Returned
   \<and> resources_of ''asw-tint''
        (snd (injectToolCSS color_config (snd (injectToolCSS color_config empty_document)))) =
       [(''asw-tint'', ''color: #fff !important;'')]
   \<and> count_list
        (rootClasses (snd (injectToolCSS color_config (snd (injectToolCSS color_config empty_document)))))
        ''asw-tint'' = 1"
proof -
  have wf: "wf_document empty_document"
    by code_simp
  have en: "enable color_config = Some True"
    and valid: "valid_token (toolId color_config)"
    and compiled: "generateCSSFromConfig (Some color_config) = ''color: #fff !important;''"
    and tid: "toolId color_config = ''asw-tint''"
    by code_simp+
  have ne: "generateCSSFromConfig (Some color_config) \<noteq> ''''"
    by (simp add: compiled)
  note t = injectToolCSS_idempotent [OF wf, of color_config color_config]
  have idem: "injectToolCSS color_config (snd (injectToolCSS color_config empty_document)) =
       injectToolCSS color_config empty_document"
    using t by blast
  have returned: "fst (injectToolCSS color_config empty_document) = Returned"
    using t en valid by blast
  have res: "resources_of ''asw-tint''
       (snd (injectToolCSS color_config (snd (injectToolCSS color_config empty_document)))) =
       [(''asw-tint'', ''color: #fff !important;'')]"
    using t en ne unfolding tid compiled by blast
  have marker: "count_list
       (rootClasses (snd (injectToolCSS color_config (snd (injectToolCSS color_config empty_document)))))
        ''asw-tint'' = 1"
    using t en valid unfolding tid by blast
  show ?thesis
    using wf en valid compiled tid idem returned res marker by blast
qed

text \<open>
  Claim C2 as stated holds of every document and every configuration. In a document with
  two elements of the tool's id, \<open>getElementById(toolId)?.remove()\<close> removes one of them
  at each call: switching the tool off twice leaves another document than switching it off
  once. For a configuration whose id has a space in it, \<open>classList.toggle\<close> raises at
  each call, and the marker class is not on the root after two activations.
\<close>

theorem injectToolCSS_duplicate_id_counterexample:
  "enable color_off_config = Some False
   \<and> toolId color_off_config = ''asw-tint''
   \<and> resources_of ''asw-tint'' duplicate_id_document =
       [(''asw-tint'', ''color: #fff !important;''), (''asw-tint'', ''color: #000 !important;'')]
   \<and> injectToolCSS color_off_config duplicate_id_document =
       (Returned, \<lparr>rootClasses = [], idElements = [(''asw-tint'', ''color: #000 !important;'')]\<rparr>)
   \<and> injectToolCSS color_off_config (snd (injectToolCSS color_off_config duplicate_id_document)) =
       (Returned, \<lparr>rootClasses = [], idElements = []\<rparr>)
   \<and> injectToolCSS color_off_config (snd (injectToolCSS color_off_config duplicate_id_document)) \<noteq>
       injectToolCSS color_off_config duplicate_id_document
   \<and> enable spaced_id_config = Some True
   \<and> toolId spaced_id_config = ''asw-big text''
   \<and> fst (injectToolCSS spaced_id_config empty_document) = Thrown InvalidCharacterError
   \<and> fst (injectToolCSS spaced_id_config (snd (injectToolCSS spaced_id_config empty_document))) =
       Thrown InvalidCharacterError
   \<and> count_list
        (rootClasses (snd (injectToolCSS spaced_id_config
           (snd (injectToolCSS spaced_id_config empty_document)))))
        ''asw-big text'' = 0"
  by code_simp

section \<open>The contrast tool and the unbound \<open>key\<close>\<close>

lemma enableContrast_no_global_key:
  "enableContrast None ts contrast d =
     (Thrown ReferenceError,
      d\<lparr>rootClasses := classList_remove ''asw-dark-contrast'' (rootClasses d)\<rparr>)"
  by (simp add: enableContrast_def FILTERS_def)

lemma monochrome_injected:
  "(case map_of (FILTERS ts) ''monochrome'' of
      None \<Rightarrow> False
    | Some flt \<Rightarrow>
        injectToolCSS (flt\<lparr>enable := Some True\<rparr>) empty_document =
          (Returned, monochrome_document))"
proof -
  have entry: "map_of (FILTERS ts) ''monochrome'' =
      Some \<lparr>cid = Some ''monochrome'', selector = Some ''html.asw-monochrome'',
            childrenSelector = Some [''body'', ''*''],
            styles = Some [(''filter'', ''grayscale(100%)'')], css = None, enable = None\<rparr>"
    by (simp add: FILTERS_def)
  have "injectToolCSS
          \<lparr>cid = Some ''monochrome'', selector = Some ''html.asw-monochrome'',
           childrenSelector = Some [''body'', ''*''],
           styles = Some [(''filter'', ''grayscale(100%)'')], css = None, enable = Some True\<rparr>
          empty_document = (Returned, monochrome_document)"
    by code_simp
  with entry show ?thesis by simp
qed

text \<open>
  Claim C1 (switching filters), evaluated where no global \<open>key\<close> exists.
  \<open>enableContrast("monochrome")\<close> on the empty document throws a ReferenceError in the
  first round of the clearing loop and activates nothing; \<open>enableContrast("dark-contrast")\<close>
  after it throws again, and neither the resource nor the marker class of dark-contrast is
  present. Called on the document in which \<open>injectToolCSS\<close> has activated monochrome,
  \<open>enableContrast("dark-contrast")\<close> throws and leaves monochrome's resource and marker
  class in place.
\<close>

theorem enableContrast_switch_throws:
  "enableContrast None ts (Some ''monochrome'') empty_document =
     (Thrown ReferenceError, empty_document)
   \<and> enableContrast None ts (Some ''dark-contrast'')
         (snd (enableContrast None ts (Some ''monochrome'') empty_document)) =
       (Thrown ReferenceError, empty_document)
   \<and> resources_of ''asw-dark-contrast'' empty_document = []
   \<and> ''asw-dark-contrast'' \<notin> set (rootClasses empty_document)
   \<and> (case map_of (FILTERS ts) ''monochrome'' of
         None \<Rightarrow> False
       | Some flt \<Rightarrow>
           injectToolCSS (flt\<lparr>enable := Some True\<rparr>) empty_document =
             (Returned, monochrome_document))
   \<and> enableContrast None ts (Some ''dark-contrast'') monochrome_document =
       (Thrown ReferenceError, monochrome_document)
   \<and> resources_of ''asw-monochrome'' monochrome_document \<noteq> []
   \<and> ''asw-monochrome'' \<in> set (rootClasses monochrome_document)
   \<and> resources_of ''asw-dark-contrast'' monochrome_document = []
   \<and> ''asw-dark-contrast'' \<notin> set (rootClasses monochrome_document)"
  using monochrome_injected [of ts]
  by (simp add: enableContrast_no_global_key empty_document_def monochrome_document_def
      classList_remove_def resources_of_def)

text \<open>
  Claim C7 (an unknown or missing name clears all filters and is no error), evaluated where
  no global \<open>key\<close> exists. \<open>sepia\<close> is not a key of the registry. On the document with
  monochrome active, \<open>enableContrast("sepia")\<close> and \<open>enableContrast()\<close> both throw a
  ReferenceError, and monochrome's resource and marker class are still there.
\<close>

theorem enableContrast_unknown_name_throws:
  "map_of (FILTERS ts) ''sepia'' = None
   \<and> enableContrast None ts (Some ''sepia'') monochrome_document =
       (Thrown ReferenceError, monochrome_document)
   \<and> enableContrast None ts None monochrome_document =
       (Thrown ReferenceError, monochrome_document)
   \<and> resources_of ''asw-monochrome'' monochrome_document \<noteq> []
   \<and> ''asw-monochrome'' \<in> set (rootClasses monochrome_document)"
  by (simp add: enableContrast_no_global_key monochrome_document_def
      classList_remove_def resources_of_def FILTERS_def)

section \<open>Font-size adjustment\<close>

lemma max_min_clamp: "max 8 (min 72 x) = clamp x 8 72"
  by (simp add: clamp_def max_def min_def)

lemma clamp_bounds: "8 \<le> clamp x 8 72 \<and> clamp x 8 72 \<le> 72"
  by (simp add: clamp_def)

lemma clamp_fixed: "clamp x 8 72 = x \<longleftrightarrow> 8 \<le> x \<and> x \<le> 72"
  by (auto simp: clamp_def)

lemma rounds_integer: "rounds rnd \<Longrightarrow> rnd 0 = 0 \<and> rnd 8 = 8 \<and> rnd 72 = 72"
proof -
  assume r: "rounds rnd"
  have "rnd (real_of_int k) = real_of_int k" if "\<bar>k\<bar> \<le> 72" for k :: int
  proof -
    from that have "\<bar>k\<bar> \<le> 2 ^ 53" by simp
    with r show ?thesis by (simp add: rounds_def)
  qed
  from this [of 0] this [of 8] this [of 72] show ?thesis by simp
qed

lemma rounds_mono: "rounds rnd \<Longrightarrow> x \<le> y \<Longrightarrow> rnd x \<le> rnd y"
  by (simp add: rounds_def mono_def)

lemma rounds_identity: "rounds (\<lambda>x. x)"
  by (simp add: rounds_def mono_def)

lemma clamp_rounded_high: "rounds rnd \<Longrightarrow> 72 \<le> x \<Longrightarrow> clamp (rnd x) 8 72 = 72"
  using rounds_mono [of rnd 72 x] rounds_integer [of rnd] by (simp add: clamp_def)

lemma clamp_rounded_low: "rounds rnd \<Longrightarrow> x \<le> 8 \<Longrightarrow> clamp (rnd x) 8 72 = 8"
  using rounds_mono [of rnd x 8] rounds_integer [of rnd] by (auto simp: clamp_def)

lemma icon_test: "list_ex (\<lambda>cls. cls \<in> set icons) (classList el) = carries_icon_class icons el"
  by (auto simp: carries_icon_class_def list_ex_iff)

lemma widget_test:
  "list_ex (\<lambda>sel. closest sel anc el) EXCLUDED_SELECTORS = in_widget_subtree anc el"
  by (simp add: EXCLUDED_SELECTORS_def in_widget_subtree_def)

lemma selector_test: "list_ex (\<lambda>sel. matches sel el) FONT_SIZE_SELECTOR = is_selected el"
  by (auto simp: FONT_SIZE_SELECTOR_def matches_def is_selected_def)


lemma visit_skipped: "\<not> is_adjusted icons anc el \<Longrightarrow> visit rnd icons m anc ps el = el"
  unfolding visit_def adjustElement_def icon_test widget_test selector_test
  by (auto simp: is_adjusted_def no_layout_box_def no_visible_text_def)

lemma visit_uncached:
  assumes "is_adjusted icons anc el" and "aswOrgFontSize el = None \<or> aswOrgFontSize el = Some 0"
  shows "visit rnd icons m anc ps el =
           el\<lparr>aswOrgFontSize := Some (computedFontSize ps el),
              styleFontSize := Some (clamp (rnd (computedFontSize ps el * m)) 8 72)\<rparr>"
  using assms
  unfolding visit_def adjustElement_def icon_test widget_test selector_test max_min_clamp
  by (auto simp: is_adjusted_def no_layout_box_def no_visible_text_def Let_def)

lemma visit_cached:
  assumes "is_adjusted icons anc el" and "aswOrgFontSize el = Some n" and "n \<noteq> 0"
  shows "visit rnd icons m anc ps el = el\<lparr>styleFontSize := Some (clamp (rnd (n * m)) 8 72)\<rparr>"
  using assms
  unfolding visit_def adjustElement_def icon_test widget_test selector_test max_min_clamp
  by (auto simp: is_adjusted_def no_layout_box_def no_visible_text_def Let_def)

lemma cache_cases:
  obtains "aswOrgFontSize el = None \<or> aswOrgFontSize el = Some 0"
  | n where "aswOrgFontSize el = Some n" "n \<noteq> 0"
  by (cases "aswOrgFontSize el") auto

lemma classList_adjustElement [simp]:
  "classList (adjustElement rnd icons m anc ps el) = classList el"
  by (simp add: adjustElement_def Let_def split: option.splits)

lemma classList_visit [simp]: "classList (visit rnd icons m anc ps el) = classList el"
  by (simp add: visit_def)

lemma visit_result:
  assumes "is_adjusted icons anc el"
  shows "aswOrgFontSize (visit rnd icons m anc ps el) \<noteq> None"
    and "styleFontSize (visit rnd icons m anc ps el) =
           map_option (\<lambda>base. clamp (rnd (base * m)) 8 72)
             (aswOrgFontSize (visit rnd icons m anc ps el))"
    and "computedFontSize q (visit rnd icons m anc ps el) =
           clamp (rnd (the (aswOrgFontSize (visit rnd icons m anc ps el)) * m)) 8 72"
    and "aswOrgFontSize el = Some n \<Longrightarrow> n \<noteq> 0 \<Longrightarrow>
           aswOrgFontSize (visit rnd icons m anc ps el) = Some n"
    and "aswOrgFontSize el = None \<or> aswOrgFontSize el = Some 0 \<Longrightarrow>
           aswOrgFontSize (visit rnd icons m anc ps el) = Some (computedFontSize ps el)"
  using assms
  by (cases el rule: cache_cases;
      simp add: visit_uncached visit_cached computedFontSize_def)+

lemma adjustNode_visit:
  "adjustNode rnd icons m anc ps (Node el kids) =
     Node (visit rnd icons m anc ps el)
       (map (adjustNode rnd icons m (classList el # anc)
               (computedFontSize ps (visit rnd icons m anc ps el))) kids)"
  by (simp add: visit_def Let_def)

lemma list_all2_concat_map:
  "(\<And>k. k \<in> set ks \<Longrightarrow> list_all2 R (f k) (g k)) \<Longrightarrow>
   list_all2 R (concat (map f ks)) (concat (map g ks))"
  by (induction ks) (simp_all add: list_all2_appendI)

lemma flatten_adjustNode:
  "list_all2 (visited_from rnd icons m)
     (flatten anc ps n) (flatten anc ps' (adjustNode rnd icons m anc ps' n))"
proof (induction n arbitrary: anc ps ps')
  case (Node el kids)
  have "list_all2 (visited_from rnd icons m)
          (concat (map (flatten (classList el # anc) (computedFontSize ps el)) kids))
          (concat (map (\<lambda>k. flatten (classList el # anc)
                               (computedFontSize ps' (visit rnd icons m anc ps' el))
                               (adjustNode rnd icons m (classList el # anc)
                                  (computedFontSize ps' (visit rnd icons m anc ps' el)) k))
                       kids))"
    by (rule list_all2_concat_map) (rule Node.IH)
  moreover have "visited_from rnd icons m (anc, ps, el) (anc, ps', visit rnd icons m anc ps' el)"
    by (simp add: visited_from_def)
  ultimately show ?case
    by (simp add: adjustNode_visit comp_def del: adjustNode.simps)
qed

lemma page_elements_adjustFontSize:
  "list_all2 (visited_from rnd icons (case arg of None \<Rightarrow> 1 | Some m \<Rightarrow> m))
     (page_elements pg) (page_elements (adjustFontSize rnd icons arg pg))"
proof -
  have "list_all2 (visited_from rnd icons (case arg of None \<Rightarrow> 1 | Some m \<Rightarrow> m))
          (concat (map (flatten [] (rootFontSize pg)) (children pg)))
          (concat (map (\<lambda>k. flatten [] (rootFontSize pg)
                               (adjustNode rnd icons (case arg of None \<Rightarrow> 1 | Some m \<Rightarrow> m) []
                                  (rootFontSize pg) k))
                       (children pg)))"
    by (rule list_all2_concat_map) (rule flatten_adjustNode)
  then show ?thesis
    by (simp add: page_elements_def adjustFontSize_def Let_def comp_def)
qed

lemma length_page_elements [simp]:
  "length (page_elements (adjustFontSize rnd icons arg pg)) = length (page_elements pg)"
  using page_elements_adjustFontSize [of rnd icons arg pg]
  by (simp add: list_all2_lengthD)

lemma visited_at:
  assumes "i < length (page_elements pg)"
  shows "ancestors_at (adjustFontSize rnd icons arg pg) i = ancestors_at pg i"
    and "element_at (adjustFontSize rnd icons arg pg) i =
           visit rnd icons (case arg of None \<Rightarrow> 1 | Some m \<Rightarrow> m) (ancestors_at pg i)
             (parent_size_at (adjustFontSize rnd icons arg pg) i) (element_at pg i)"
proof -
  have "visited_from rnd icons (case arg of None \<Rightarrow> 1 | Some m \<Rightarrow> m)
          (page_elements pg ! i) (page_elements (adjustFontSize rnd icons arg pg) ! i)"
    using page_elements_adjustFontSize assms by (rule list_all2_nthD)
  then show "ancestors_at (adjustFontSize rnd icons arg pg) i = ancestors_at pg i"
    and "element_at (adjustFontSize rnd icons arg pg) i =
           visit rnd icons (case arg of None \<Rightarrow> 1 | Some m \<Rightarrow> m) (ancestors_at pg i)
             (parent_size_at (adjustFontSize rnd icons arg pg) i) (element_at pg i)"
    by (simp_all add: visited_from_def ancestors_at_def element_at_def parent_size_at_def)
qed


lemma list_all_concat_map:
  "(\<And>k. k \<in> set ks \<Longrightarrow> list_all P (f k)) \<Longrightarrow> list_all P (concat (map f ks))"
  by (induction ks) simp_all

lemma wf_flatten:
  "wf_node n \<Longrightarrow> list_all (\<lambda>x. wf_element (snd (snd x))) (flatten anc ps n)"
proof (induction n arbitrary: anc ps)
  case (Node el kids)
  then have "list_all (\<lambda>x. wf_element (snd (snd x)))
               (concat (map (flatten (classList el # anc) (computedFontSize ps el)) kids))"
    by (intro list_all_concat_map) (simp add: list_all_iff)
  with Node.prems show ?case by simp
qed

lemma computedFontSize_nonneg:
  "wf_element el \<Longrightarrow> 0 \<le> ps \<Longrightarrow> 0 \<le> computedFontSize ps el"
  by (simp add: wf_element_def computedFontSize_def split: option.splits font_size.splits)

lemma computedFontSize_visit_nonneg:
  assumes "wf_element el" and "0 \<le> ps"
  shows "0 \<le> computedFontSize ps (visit rnd icons m anc ps el)"
proof (cases "is_adjusted icons anc el")
  case False
  with assms show ?thesis by (simp add: visit_skipped computedFontSize_nonneg)
next
  case True
  have "(0::real) \<le> 8" by simp
  also have "8 \<le> clamp (rnd (the (aswOrgFontSize (visit rnd icons m anc ps el)) * m)) 8 72"
    using clamp_bounds by blast
  finally show ?thesis by (simp add: visit_result(3) [OF True])
qed

lemma parent_sizes_nonneg:
  "0 \<le> ps \<Longrightarrow> wf_node n \<Longrightarrow>
   list_all (\<lambda>x. 0 \<le> fst (snd x)) (flatten anc ps (adjustNode rnd icons m anc ps n))"
proof (induction n arbitrary: anc ps)
  case (Node el kids)
  from Node.prems have el: "wf_element el" and kids: "\<And>k. k \<in> set kids \<Longrightarrow> wf_node k"
    by (simp_all add: list_all_iff)
  have size: "0 \<le> computedFontSize ps (visit rnd icons m anc ps el)"
    using el Node.prems(1) by (rule computedFontSize_visit_nonneg)
  have "list_all (\<lambda>x. 0 \<le> fst (snd x))
          (concat (map (\<lambda>k. flatten (classList el # anc)
                               (computedFontSize ps (visit rnd icons m anc ps el))
                               (adjustNode rnd icons m (classList el # anc)
                                  (computedFontSize ps (visit rnd icons m anc ps el)) k))
                       kids))"
    by (rule list_all_concat_map) (rule Node.IH [OF _ size kids])
  with Node.prems(1) show ?case
    by (simp add: adjustNode_visit comp_def del: adjustNode.simps)
qed

lemma wf_page_at:
  assumes "wf_page pg" and "i < length (page_elements pg)"
  shows "wf_element (element_at pg i)"
    and "0 \<le> parent_size_at (adjustFontSize rnd icons arg pg) i"
proof -
  from assms(1) have root: "0 \<le> rootFontSize pg"
    and kids: "\<And>k. k \<in> set (children pg) \<Longrightarrow> wf_node k"
    by (simp_all add: wf_page_def list_all_iff)
  have "list_all (\<lambda>x. wf_element (snd (snd x))) (page_elements pg)"
    unfolding page_elements_def
    by (rule list_all_concat_map) (rule wf_flatten [OF kids])
  with assms(2) show "wf_element (element_at pg i)"
    by (simp add: list_all_length element_at_def)
  have "list_all (\<lambda>x. 0 \<le> fst (snd x))
          (concat (map (\<lambda>k. flatten [] (rootFontSize pg)
                               (adjustNode rnd icons (case arg of None \<Rightarrow> 1 | Some m \<Rightarrow> m) []
                                  (rootFontSize pg) k))
                       (children pg)))"
    by (rule list_all_concat_map) (rule parent_sizes_nonneg [OF root kids])
  then have "list_all (\<lambda>x. 0 \<le> fst (snd x)) (page_elements (adjustFontSize rnd icons arg pg))"
    by (simp add: page_elements_def adjustFontSize_def Let_def comp_def)
  with assms(2) show "0 \<le> parent_size_at (adjustFontSize rnd icons arg pg) i"
    by (simp add: list_all_length parent_size_at_def)
qed

lemma sample_page_doubled:
  assumes "rounds rnd"
  shows "adjustFontSize rnd sample_icons (Some 2) sample_page = sample_page_doubled"
    and "adjustFontSize rnd sample_icons (Some 2) sample_page_doubled = sample_page_doubled"
proof -
  have "rnd (real_of_int k) = real_of_int k" if "\<bar>k\<bar> \<le> 200" for k :: int
  proof -
    from that have "\<bar>k\<bar> \<le> 2 ^ 53" by simp
    with assms show ?thesis by (simp add: rounds_def)
  qed
  from this [of 32] this [of 64] this [of 200]
  have exact: "rnd 32 = 32" "rnd 64 = 64" "rnd 200 = 200"
    by simp_all
  show "adjustFontSize rnd sample_icons (Some 2) sample_page = sample_page_doubled"
    using exact
    by (simp add: adjustFontSize_def sample_page_def sample_page_doubled_def sample_icons_def
        text_element_def adjustElement_def computedFontSize_def closest_def matches_def
        FONT_SIZE_SELECTOR_def EXCLUDED_SELECTORS_def trim_def is_ws_def Let_def)
  show "adjustFontSize rnd sample_icons (Some 2) sample_page_doubled = sample_page_doubled"
    using exact
    by (simp add: adjustFontSize_def sample_page_doubled_def sample_icons_def
        text_element_def adjustElement_def computedFontSize_def closest_def matches_def
        FONT_SIZE_SELECTOR_def EXCLUDED_SELECTORS_def trim_def is_ws_def Let_def)
qed

text \<open>
  Claim C4 (16px doubled twice is 32px, not 64px), evaluated at the span of the sample
  page, for every rounding. The span is an element the tool adjusts, has no cached size and
  a computed size of 16px, inherited from its paragraph. \<open>adjustFontSize(2)\<close> visits the
  paragraph first, caches 16 for it and sets it to 32px; the span, visited next, has the
  computed size 32px: the call caches 32 as its original size and sets it to 64px. The
  second \<open>adjustFontSize(2)\<close> scales the cached 32: the span is at 64px.
\<close>

theorem adjustFontSize_nested_compounds:
  assumes "rounds rnd"
  shows "is_adjusted sample_icons (ancestors_at sample_page 1) (element_at sample_page 1)
       \<and> aswOrgFontSize (element_at sample_page 1) = None
       \<and> font_size_at sample_page 1 = 16
       \<and> aswOrgFontSize (element_at (adjustFontSize rnd sample_icons (Some 2) sample_page) 0) = Some 16
       \<and> font_size_at (adjustFontSize rnd sample_icons (Some 2) sample_page) 0 = 32
       \<and> aswOrgFontSize (element_at (adjustFontSize rnd sample_icons (Some 2) sample_page) 1) = Some 32
       \<and> font_size_at (adjustFontSize rnd sample_icons (Some 2) sample_page) 1 = 64
       \<and> aswOrgFontSize (element_at (adjustFontSize rnd sample_icons (Some 2)
            (adjustFontSize rnd sample_icons (Some 2) sample_page)) 1) = Some 32
       \<and> styleFontSize (element_at (adjustFontSize rnd sample_icons (Some 2)
            (adjustFontSize rnd sample_icons (Some 2) sample_page)) 1) = Some 64
       \<and> font_size_at (adjustFontSize rnd sample_icons (Some 2)
            (adjustFontSize rnd sample_icons (Some 2) sample_page)) 1 = 64"
proof -
  have before: "is_adjusted sample_icons (ancestors_at sample_page 1) (element_at sample_page 1)"
    "aswOrgFontSize (element_at sample_page 1) = None"
    "font_size_at sample_page 1 = 16"
    by code_simp+
  have after: "aswOrgFontSize (element_at sample_page_doubled 0) = Some 16"
    "font_size_at sample_page_doubled 0 = 32"
    "aswOrgFontSize (element_at sample_page_doubled 1) = Some 32"
    "styleFontSize (element_at sample_page_doubled 1) = Some 64"
    "font_size_at sample_page_doubled 1 = 64"
    by code_simp+
  show ?thesis
    unfolding sample_page_doubled [OF assms] using before after by blast
qed

text \<open>The same with exact products, which is what the products of these integers are.\<close>

theorem adjustFontSize_nested_compounds_witness:
  "rounds (\<lambda>x. x)
   \<and> font_size_at sample_page 1 = 16
   \<and> font_size_at (adjustFontSize (\<lambda>x. x) sample_icons (Some 2) sample_page) 1 = 64
   \<and> font_size_at (adjustFontSize (\<lambda>x. x) sample_icons (Some 2)
        (adjustFontSize (\<lambda>x. x) sample_icons (Some 2) sample_page)) 1 = 64"
  using rounds_identity adjustFontSize_nested_compounds [OF rounds_identity] by blast

text \<open>
  Claim C6. For every element the tool adjusts and every multiplier \<open>m\<close>, the call
  leaves a cached base size \<open>base\<close> and the font size \<open>clamp(base * m, 8, 72)\<close> pixels,
  the product being the one of doubles; it lies between 8 and 72. The base is the size that
  was cached before the call, when there was one other than 0; with nothing cached it is
  the computed size that the element has when the loop meets it. For every rounding of
  doubles the size is 72px when \<open>base * m\<close> is at least 72 and 8px when it is at most 8:
  on a 16px element \<open>adjustFontSize(10)\<close> gives 72px and \<open>adjustFontSize(0.1)\<close>
  gives 8px.
\<close>

theorem adjustFontSize_clamps:
  assumes "i < length (page_elements pg)"
    and "is_adjusted icons (ancestors_at pg i) (element_at pg i)"
  shows "aswOrgFontSize (element_at (adjustFontSize rnd icons (Some m) pg) i) \<noteq> None
       \<and> styleFontSize (element_at (adjustFontSize rnd icons (Some m) pg) i) =
           map_option (\<lambda>base. clamp (rnd (base * m)) 8 72)
             (aswOrgFontSize (element_at (adjustFontSize rnd icons (Some m) pg) i))
       \<and> font_size_at (adjustFontSize rnd icons (Some m) pg) i =
           clamp (rnd (the (aswOrgFontSize (element_at (adjustFontSize rnd icons (Some m) pg) i)) * m))
             8 72
       \<and> (\<forall>base. aswOrgFontSize (element_at pg i) = Some base \<and> base \<noteq> 0 \<longrightarrow>
             aswOrgFontSize (element_at (adjustFontSize rnd icons (Some m) pg) i) = Some base)
       \<and> (aswOrgFontSize (element_at pg i) = None \<longrightarrow>
             aswOrgFontSize (element_at (adjustFontSize rnd icons (Some m) pg) i) =
               Some (computedFontSize (parent_size_at (adjustFontSize rnd icons (Some m) pg) i)
                       (element_at pg i)))
       \<and> 8 \<le> font_size_at (adjustFontSize rnd icons (Some m) pg) i
       \<and> font_size_at (adjustFontSize rnd icons (Some m) pg) i \<le> 72
       \<and> (rounds rnd \<longrightarrow>
            (\<forall>base. aswOrgFontSize (element_at (adjustFontSize rnd icons (Some m) pg) i) = Some base \<longrightarrow>
               (72 \<le> base * m \<longrightarrow> font_size_at (adjustFontSize rnd icons (Some m) pg) i = 72)
               \<and> (base * m \<le> 8 \<longrightarrow> font_size_at (adjustFontSize rnd icons (Some m) pg) i = 8)))"
proof -
  define pg' where "pg' = adjustFontSize rnd icons (Some m) pg"
  define el' where "el' = element_at pg' i"
  have el': "el' = visit rnd icons m (ancestors_at pg i) (parent_size_at pg' i) (element_at pg i)"
    using visited_at(2) [OF assms(1), of rnd icons "Some m"] by (simp add: el'_def pg'_def)
  note r = visit_result [OF assms(2), where rnd = rnd and m = m and ps = "parent_size_at pg' i",
      folded el']
  have size: "font_size_at pg' i = clamp (rnd (the (aswOrgFontSize el') * m)) 8 72"
    using r(3) [where q = "parent_size_at pg' i"] by (simp add: font_size_at_def el'_def)
  have high: "font_size_at pg' i = 72"
    if "rounds rnd" "aswOrgFontSize el' = Some base" "72 \<le> base * m" for base
    using that size by (simp add: clamp_rounded_high)
  have low: "font_size_at pg' i = 8"
    if "rounds rnd" "aswOrgFontSize el' = Some base" "base * m \<le> 8" for base
    using that size by (simp add: clamp_rounded_low)
  show ?thesis
    unfolding pg'_def [symmetric] el'_def [symmetric]
    using r(1,2,4,5) size clamp_bounds high low by auto
qed

text \<open>The two examples of the claim, on the 16px paragraph of the sample page.\<close>

theorem adjustFontSize_clamps_witness:
  "0 < length (page_elements sample_page)
   \<and> is_adjusted sample_icons (ancestors_at sample_page 0) (element_at sample_page 0)
   \<and> rounds (\<lambda>x. x)
   \<and> font_size_at sample_page 0 = 16
   \<and> aswOrgFontSize (element_at (adjustFontSize (\<lambda>x. x) sample_icons (Some 10) sample_page) 0) = Some 16
   \<and> font_size_at (adjustFontSize (\<lambda>x. x) sample_icons (Some 10) sample_page) 0 = 72
   \<and> aswOrgFontSize (element_at (adjustFontSize (\<lambda>x. x) sample_icons (Some (1 / 10)) sample_page) 0)
       = Some 16
   \<and> font_size_at (adjustFontSize (\<lambda>x. x) sample_icons (Some (1 / 10)) sample_page) 0 = 8"
proof -
  have h1: "0 < length (page_elements sample_page)"
    by code_simp
  have h2: "is_adjusted sample_icons (ancestors_at sample_page 0) (element_at sample_page 0)"
    by code_simp
  have h3: "font_size_at sample_page 0 = 16"
    by code_simp
  have c10: "aswOrgFontSize (element_at (adjustFontSize (\<lambda>x. x) sample_icons (Some 10) sample_page) 0)
              = Some 16"
    and c01: "aswOrgFontSize
                (element_at (adjustFontSize (\<lambda>x. x) sample_icons (Some (1 / 10)) sample_page) 0)
              = Some 16"
    by code_simp+
  have up: "font_size_at (adjustFontSize (\<lambda>x. x) sample_icons (Some 10) sample_page) 0 = 72"
    using adjustFontSize_clamps [OF h1 h2, of "\<lambda>x. x" 10] rounds_identity c10 by simp
  have down: "font_size_at (adjustFontSize (\<lambda>x. x) sample_icons (Some (1 / 10)) sample_page) 0 = 8"
    using adjustFontSize_clamps [OF h1 h2, of "\<lambda>x. x" "1 / 10"] rounds_identity c01 by simp
  show ?thesis
    using h1 h2 h3 rounds_identity c10 c01 up down by blast
qed

text \<open>
  Claim C5 as stated: \<open>adjustFontSize(1)\<close> restores the original size of every element
  it adjusts. The heading of the sample page has 100px: the call caches 100 and sets 72px.
\<close>

theorem adjustFontSize_one_counterexample:
  "5 < length (page_elements sample_page)
   \<and> is_adjusted sample_icons (ancestors_at sample_page 5) (element_at sample_page 5)
   \<and> aswOrgFontSize (element_at sample_page 5) = None
   \<and> font_size_at sample_page 5 = 100
   \<and> aswOrgFontSize (element_at (adjustFontSize (\<lambda>x. x) sample_icons (Some 1) sample_page) 5)
       = Some 100
   \<and> font_size_at (adjustFontSize (\<lambda>x. x) sample_icons (Some 1) sample_page) 5 = 72"
  by code_simp

text \<open>
  Claim C5, as the code has it. For every element the tool adjusts, \<open>adjustFontSize(1)\<close>
  leaves a cached base size, the one cached before the call when there was one other than
  0, and sets the font size to that base clamped to the range from 8 to 72 (the base being
  a double, the product with 1 is the base itself); the font size is the cached base
  exactly when the base lies in the range.
\<close>

theorem adjustFontSize_one_clamps_cached:
  assumes "i < length (page_elements pg)"
    and "is_adjusted icons (ancestors_at pg i) (element_at pg i)"
  shows "aswOrgFontSize (element_at (adjustFontSize rnd icons (Some 1) pg) i) \<noteq> None
       \<and> styleFontSize (element_at (adjustFontSize rnd icons (Some 1) pg) i) =
           map_option (\<lambda>base. clamp (rnd base) 8 72)
             (aswOrgFontSize (element_at (adjustFontSize rnd icons (Some 1) pg) i))
       \<and> (\<forall>base. aswOrgFontSize (element_at (adjustFontSize rnd icons (Some 1) pg) i) = Some base
                  \<and> rnd base = base \<longrightarrow>
             font_size_at (adjustFontSize rnd icons (Some 1) pg) i = clamp base 8 72
             \<and> (font_size_at (adjustFontSize rnd icons (Some 1) pg) i = base
                  \<longleftrightarrow> 8 \<le> base \<and> base \<le> 72))
       \<and> (\<forall>base. aswOrgFontSize (element_at pg i) = Some base \<and> base \<noteq> 0 \<longrightarrow>
             aswOrgFontSize (element_at (adjustFontSize rnd icons (Some 1) pg) i) = Some base)"
proof -
  define pg' where "pg' = adjustFontSize rnd icons (Some 1) pg"
  define el' where "el' = element_at pg' i"
  have el': "el' = visit rnd icons 1 (ancestors_at pg i) (parent_size_at pg' i) (element_at pg i)"
    using visited_at(2) [OF assms(1), of rnd icons "Some 1"] by (simp add: el'_def pg'_def)
  note r = visit_result [OF assms(2), where rnd = rnd and m = 1 and ps = "parent_size_at pg' i",
      folded el']
  have size: "font_size_at pg' i = clamp (rnd (the (aswOrgFontSize el'))) 8 72"
    using r(3) [where q = "parent_size_at pg' i"] by (simp add: font_size_at_def el'_def)
  have exact: "font_size_at pg' i = clamp base 8 72
               \<and> (font_size_at pg' i = base \<longleftrightarrow> 8 \<le> base \<and> base \<le> 72)"
    if "aswOrgFontSize el' = Some base" "rnd base = base" for base
    using that size by (simp add: clamp_fixed)
  show ?thesis
    unfolding pg'_def [symmetric] el'_def [symmetric]
    using r(1,2,4) exact by auto
qed

text \<open>The 16px paragraph, doubled and then reset with multiplier 1, is at 16px again.\<close>

theorem adjustFontSize_one_clamps_cached_witness:
  "0 < length (page_elements (adjustFontSize (\<lambda>x. x) sample_icons (Some 2) sample_page))
   \<and> is_adjusted sample_icons
        (ancestors_at (adjustFontSize (\<lambda>x. x) sample_icons (Some 2) sample_page) 0)
        (element_at (adjustFontSize (\<lambda>x. x) sample_icons (Some 2) sample_page) 0)
   \<and> aswOrgFontSize (element_at (adjustFontSize (\<lambda>x. x) sample_icons (Some 2) sample_page) 0)
       = Some 16
   \<and> font_size_at (adjustFontSize (\<lambda>x. x) sample_icons (Some 2) sample_page) 0 = 32
   \<and> aswOrgFontSize (element_at (adjustFontSize (\<lambda>x. x) sample_icons (Some 1)
        (adjustFontSize (\<lambda>x. x) sample_icons (Some 2) sample_page)) 0) = Some 16
   \<and> font_size_at (adjustFontSize (\<lambda>x. x) sample_icons (Some 1)
        (adjustFontSize (\<lambda>x. x) sample_icons (Some 2) sample_page)) 0 = 16"
proof -
  let ?pg = "adjustFontSize (\<lambda>x. x) sample_icons (Some 2) sample_page"
  have h1: "0 < length (page_elements ?pg)"
    by code_simp
  have h2: "is_adjusted sample_icons (ancestors_at ?pg 0) (element_at ?pg 0)"
    by code_simp
  have h3: "aswOrgFontSize (element_at ?pg 0) = Some 16"
    and h4: "font_size_at ?pg 0 = 32"
    by code_simp+
  note t = adjustFontSize_one_clamps_cached [OF h1 h2, of "\<lambda>x. x"]
  from t h3 have kept: "aswOrgFontSize (element_at (adjustFontSize (\<lambda>x. x) sample_icons (Some 1) ?pg) 0)
      = Some 16"
    by simp
  with t have restored: "font_size_at (adjustFontSize (\<lambda>x. x) sample_icons (Some 1) ?pg) 0 = 16"
    by simp
  show ?thesis
    using h1 h2 h3 h4 kept restored by blast
qed




text \<open>
  Claim C10. The multiplier is not validated: for every \<open>m \<le> 0\<close>, every element the
  tool adjusts (font sizes being non-negative) is set to exactly 8px, and \<open>m\<close> is still
  stored as the multiplier of the document root; a call without argument is a call with
  multiplier 1.
\<close>

theorem adjustFontSize_nonpositive_multiplier:
  assumes "m \<le> 0" and "rounds rnd" and "wf_page pg"
    and "i < length (page_elements pg)"
    and "is_adjusted icons (ancestors_at pg i) (element_at pg i)"
  shows "styleFontSize (element_at (adjustFontSize rnd icons (Some m) pg) i) = Some 8
       \<and> font_size_at (adjustFontSize rnd icons (Some m) pg) i = 8
       \<and> aswFontMultiplier (adjustFontSize rnd icons (Some m) pg) = Some m
       \<and> adjustFontSize rnd icons None pg = adjustFontSize rnd icons (Some 1) pg"
proof -
  define pg' where "pg' = adjustFontSize rnd icons (Some m) pg"
  define el where "el = element_at pg i"
  define el' where "el' = element_at pg' i"
  have el': "el' = visit rnd icons m (ancestors_at pg i) (parent_size_at pg' i) el"
    using visited_at(2) [OF assms(4), of rnd icons "Some m"] by (simp add: el'_def pg'_def el_def)
  have adj: "is_adjusted icons (ancestors_at pg i) el"
    using assms(5) by (simp add: el_def)
  have wf: "wf_element el"
    using wf_page_at(1) [OF assms(3,4)] by (simp add: el_def)
  have parent: "0 \<le> parent_size_at pg' i"
    using wf_page_at(2) [OF assms(3,4)] by (simp add: pg'_def)
  have low: "clamp (rnd (b * m)) 8 72 = 8" if "0 \<le> b" for b
  proof -
    from that assms(1) have "b * m \<le> 0" by (rule mult_nonneg_nonpos)
    then have "b * m \<le> 8" by simp
    with assms(2) show ?thesis by (rule clamp_rounded_low)
  qed
  have computed: "0 \<le> computedFontSize (parent_size_at pg' i) el"
    using wf parent by (rule computedFontSize_nonneg)
  have style: "styleFontSize el' = Some 8"
  proof (cases el rule: cache_cases)
    case 1
    then show ?thesis unfolding el' using adj computed by (simp add: visit_uncached low)
  next
    case (2 n)
    with wf have "0 \<le> n" by (simp add: wf_element_def)
    with 2 show ?thesis unfolding el' using adj by (simp add: visit_cached low)
  qed
  then have "font_size_at pg' i = 8"
    by (simp add: font_size_at_def computedFontSize_def el'_def)
  with style show ?thesis
    unfolding pg'_def [symmetric] el'_def [symmetric]
    by (simp add: pg'_def adjustFontSize_def)
qed

text \<open>The 16px paragraph under \<open>adjustFontSize(-1)\<close>.\<close>

theorem adjustFontSize_nonpositive_multiplier_witness:
  "(- 1 :: real) \<le> 0 \<and> rounds (\<lambda>x. x) \<and> wf_page sample_page
   \<and> 0 < length (page_elements sample_page)
   \<and> is_adjusted sample_icons (ancestors_at sample_page 0) (element_at sample_page 0)
   \<and> font_size_at sample_page 0 = 16
   \<and> font_size_at (adjustFontSize (\<lambda>x. x) sample_icons (Some (- 1)) sample_page) 0 = 8
   \<and> aswFontMultiplier (adjustFontSize (\<lambda>x. x) sample_icons (Some (- 1)) sample_page) = Some (- 1)
   \<and> adjustFontSize (\<lambda>x. x) sample_icons None sample_page =
       adjustFontSize (\<lambda>x. x) sample_icons (Some 1) sample_page"
proof -
  have h0: "(- 1 :: real) \<le> 0"
    by simp
  have wf: "wf_page sample_page"
    by code_simp
  have h1: "0 < length (page_elements sample_page)"
    by code_simp
  have h2: "is_adjusted sample_icons (ancestors_at sample_page 0) (element_at sample_page 0)"
    by code_simp
  have h3: "font_size_at sample_page 0 = 16"
    by code_simp
  show ?thesis
    using h0 rounds_identity wf h1 h2 h3
      adjustFontSize_nonpositive_multiplier [OF h0 rounds_identity wf h1 h2]
    by blast
qed

end
